theory Spec2Isabelle
  imports Main "HOL-Library.Sublist"
begin

section \<open>Python text\<close>

text \<open>
  A Python \<^verbatim>\<open>str\<close> is a sequence of code points, so text is a list of natural numbers.
  \<open>u\<close> turns an ASCII literal into such a list; other characters of the source
  (accented letters, emoji) are written as their code points.
\<close>

type_synonym str = "nat list"

definition u :: "string \<Rightarrow> str" where
  "u s = map of_char s"

text \<open>
  \<^verbatim>\<open>str.isspace\<close> / the class \<^verbatim>\<open>\s\<close>, \<^verbatim>\<open>\d\<close> and \<^verbatim>\<open>\w\<close> of the \<^verbatim>\<open>re\<close> module. They follow
  Python on the code points below 256 (and on the Unicode spaces); letters and digits of
  scripts beyond Latin-1 are treated as plain symbols.
\<close>

definition is_space :: "nat \<Rightarrow> bool" where
  "is_space c \<longleftrightarrow> (9 \<le> c \<and> c \<le> 13) \<or> (28 \<le> c \<and> c \<le> 32) \<or> c = 133 \<or> c = 160
     \<or> c = 5760 \<or> (8192 \<le> c \<and> c \<le> 8202) \<or> c = 8232 \<or> c = 8233 \<or> c = 8239
     \<or> c = 8287 \<or> c = 12288"

definition is_digit :: "nat \<Rightarrow> bool" where
  "is_digit c \<longleftrightarrow> 48 \<le> c \<and> c \<le> 57"

definition is_word :: "nat \<Rightarrow> bool" where
  "is_word c \<longleftrightarrow> is_digit c \<or> (65 \<le> c \<and> c \<le> 90) \<or> c = 95 \<or> (97 \<le> c \<and> c \<le> 122)
     \<or> c = 170 \<or> c = 178 \<or> c = 179 \<or> c = 181 \<or> c = 185 \<or> c = 186
     \<or> (188 \<le> c \<and> c \<le> 190) \<or> (192 \<le> c \<and> c \<le> 214) \<or> (216 \<le> c \<and> c \<le> 246)
     \<or> (248 \<le> c \<and> c \<le> 255)"

definition lower_cp :: "nat \<Rightarrow> nat" where
  "lower_cp c = (if (65 \<le> c \<and> c \<le> 90) \<or> (192 \<le> c \<and> c \<le> 222 \<and> c \<noteq> 215) then c + 32 else c)"

definition lower :: "str \<Rightarrow> str" where
  "lower s = map lower_cp s"

text \<open>\<^verbatim>\<open>str.upper\<close>: sharp s becomes SS, and two Latin-1 letters leave Latin-1.\<close>

definition upper_cp :: "nat \<Rightarrow> str" where
  "upper_cp c =
     (if (97 \<le> c \<and> c \<le> 122) \<or> (224 \<le> c \<and> c \<le> 254 \<and> c \<noteq> 247) then [c - 32]
      else if c = 223 then [83, 83]
      else if c = 181 then [924]
      else if c = 255 then [376]
      else [c])"

definition upper :: "str \<Rightarrow> str" where
  "upper s = concat (map upper_cp s)"

definition strip :: "str \<Rightarrow> str" where
  "strip s = rev (dropWhile is_space (rev (dropWhile is_space s)))"

fun startswith :: "str \<Rightarrow> str \<Rightarrow> bool" where
  "startswith s [] = True"
| "startswith [] (p # ps) = False"
| "startswith (c # cs) (p # ps) = (c = p \<and> startswith cs ps)"

text \<open>\<^verbatim>\<open>sub in s\<close>\<close>

fun contains :: "str \<Rightarrow> str \<Rightarrow> bool" where
  "contains [] sub = (sub = [])"
| "contains (c # cs) sub = (startswith (c # cs) sub \<or> contains cs sub)"

text \<open>\<^verbatim>\<open>s.replace(old, new)\<close> for a non-empty \<open>old\<close>: occurrences left to right, not overlapping.\<close>

fun replace :: "str \<Rightarrow> str \<Rightarrow> str \<Rightarrow> str" where
  "replace [] old new = []"
| "replace (c # cs) old new =
     (if old \<noteq> [] \<and> startswith (c # cs) old
      then new @ replace (drop (length old) (c # cs)) old new
      else c # replace cs old new)"

text \<open>\<^verbatim>\<open>s.split("@")[0]\<close>\<close>

definition before_at :: "str \<Rightarrow> str" where
  "before_at s = takeWhile (\<lambda>c. c \<noteq> 64) s"

text \<open>Truth value of an \<^verbatim>\<open>Optional[str]\<close>: \<^verbatim>\<open>None\<close> and the empty string are false.\<close>

fun truthy :: "str option \<Rightarrow> bool" where
  "truthy None = False"
| "truthy (Some s) = (s \<noteq> [])"

section \<open>Data model (app/models/schemas.py)\<close>

text \<open>
  Decoded JSON. \<open>JOther t\<close> is a number, \<^verbatim>\<open>true\<close>, \<^verbatim>\<open>false\<close> or \<^verbatim>\<open>null\<close>, kept with the text
  \<^verbatim>\<open>str()\<close> gives for it.
\<close>

datatype json = JStr str | JList "json list" | JObj "(str \<times> json) list" | JOther str

datatype IntentType = EMIT_INVOICE | QUERY_PRODUCTS | QUERY_CLIENTS | QUERY_HISTORY
  | GENERAL_QUESTION | CONFIRMATION | CANCEL | GREETING | UNKNOWN

record ClientIdentification =
  IdEmpresa :: str
  IdEstablecimiento :: str
  IdUsuario :: int
  Nombre :: "str option"

record InvoiceItem =
  cantidad :: str
  descripcion :: str
  precio :: str

record InvoiceResponse =
  success :: str
  estado :: str
  serie :: str
  numero :: str
  resp_id :: int
  mensaje :: str
  pdf :: str

definition is_successful :: "InvoiceResponse \<Rightarrow> bool" where
  "is_successful r \<longleftrightarrow> upper (success r) = u ''TRUE''"

definition get_full_number :: "InvoiceResponse \<Rightarrow> str" where
  "get_full_number r = serie r @ u ''-'' @ numero r"

record EmissionData =
  document_type :: "str option"
  currency :: "str option"
  id_type :: "str option"
  id_number :: "str option"
  items :: "InvoiceItem list"
  client_validated :: bool
  client_name :: "str option"

text \<open>\<^verbatim>\<open>EmissionData()\<close>: the field defaults.\<close>

definition EmissionData_init :: EmissionData where
  "EmissionData_init = \<lparr> document_type = None, currency = Some (u ''PEN''), id_type = None,
     id_number = None, items = [], client_validated = False, client_name = None \<rparr>"

definition get_missing_fields :: "EmissionData \<Rightarrow> str list" where
  "get_missing_fields e =
     (if \<not> truthy (document_type e) then [u ''tipo_documento''] else [])
     @ (if \<not> truthy (id_type e) \<or> \<not> truthy (id_number e) then [u ''identificacion_cliente''] else [])
     @ (if items e = [] then [u ''productos''] else [])"

definition reset :: "EmissionData \<Rightarrow> EmissionData" where
  "reset e = e \<lparr> document_type := None, currency := Some (u ''PEN''), id_type := None,
     id_number := None, items := [], client_validated := False, client_name := None \<rparr>"

text \<open>
  Times (\<^verbatim>\<open>datetime\<close>) are integers, in microseconds. The \<^verbatim>\<open>float\<close> total of an emission is
  kept as its two-decimal rendering.
\<close>

record EmissionRecord =
  rec_timestamp :: int
  rec_document_type :: str
  serie_numero :: str
  client_id :: str
  rec_total :: str
  rec_currency :: str
  pdf_url :: str
  items_count :: nat

record UserContext =
  clients :: "json list"
  products :: "json list"
  history :: "json list"
  loaded_at :: "int option"

definition UserContext_init :: UserContext where
  "UserContext_init = \<lparr> clients = [], products = [], history = [], loaded_at = None \<rparr>"

definition is_loaded :: "UserContext \<Rightarrow> bool" where
  "is_loaded c \<longleftrightarrow> loaded_at c \<noteq> None"

text \<open>\<open>now\<close> is what \<^verbatim>\<open>datetime.now()\<close> returns inside the call.\<close>

definition is_stale :: "int \<Rightarrow> int \<Rightarrow> UserContext \<Rightarrow> bool" where
  "is_stale now ttl_minutes c =
     (case loaded_at c of None \<Rightarrow> True
      | Some t \<Rightarrow> now - t > ttl_minutes * 60 * 1000000)"

record ConversationMessage =
  role :: str
  content :: str
  msg_timestamp :: int
  intent :: "str option"

record PendingItem =
  pend_cantidad :: str
  pend_descripcion :: str

record UserSession =
  phone :: str
  user_name :: "str option"
  client_data :: "ClientIdentification option"
  authenticated :: bool
  terms_accepted :: bool
  emission_data :: EmissionData
  awaiting_confirmation :: bool
  awaiting_client_reconfirmation :: bool
  pending_items :: "PendingItem list"
  conversation_context :: "str option"
  search_results :: "json list"
  selected_product :: "json option"
  user_context :: UserContext
  messages :: "ConversationMessage list"
  session_emissions :: "EmissionRecord list"
  created_at :: int
  last_activity :: int

text \<open>\<^verbatim>\<open>UserSession(phone=p)\<close>, created at time \<open>now\<close>.\<close>

definition UserSession_init :: "str \<Rightarrow> int \<Rightarrow> UserSession" where
  "UserSession_init p now = \<lparr> phone = p, user_name = None, client_data = None,
     authenticated = False, terms_accepted = False, emission_data = EmissionData_init,
     awaiting_confirmation = False, awaiting_client_reconfirmation = False,
     pending_items = [], conversation_context = None, search_results = [],
     selected_product = None, user_context = UserContext_init, messages = [],
     session_emissions = [], created_at = now, last_activity = now \<rparr>"

definition reset_emission :: "UserSession \<Rightarrow> UserSession" where
  "reset_emission s = s \<lparr> emission_data := reset (emission_data s),
     awaiting_confirmation := False, awaiting_client_reconfirmation := False,
     pending_items := [], selected_product := None \<rparr>"

section \<open>Regular expressions (the \<^verbatim>\<open>re\<close> module)\<close>

text \<open>
  The patterns of the source are written as values of \<open>rx\<close> and run by a backtracking
  matcher. \<open>rmatch r k\<close> lists the ways \<open>r\<close> can match at the position \<open>k\<close>, in the order
  Python tries them, so the head of the list is the match Python reports. A position is
  the code point before it (for \<^verbatim>\<open>\b\<close> and \<^verbatim>\<open>^\<close>), the text after it and the groups
  captured so far. \<open>Rep r m n g\<close> is \<^verbatim>\<open>r{m,n}\<close> (\<open>None\<close>: no upper bound), greedy when \<open>g\<close>
  holds; an iteration that consumes nothing is not repeated.
\<close>

datatype rx =
    Atom "nat \<Rightarrow> bool"
  | Eps
  | Seq rx rx
  | Alt rx rx
  | Rep rx nat "nat option" bool
  | Grp nat rx
  | Bol
  | Eol
  | Wb
  | Ahead rx

type_synonym captures = "(nat \<times> str) list"

type_synonym cfg = "nat option \<times> str \<times> captures"

fun rx_size :: "rx \<Rightarrow> nat" where
  "rx_size (Seq a b) = Suc (rx_size a + rx_size b)"
| "rx_size (Alt a b) = Suc (rx_size a + rx_size b)"
| "rx_size (Rep a m n g) = Suc (rx_size a)"
| "rx_size (Grp n a) = Suc (rx_size a)"
| "rx_size (Ahead a) = Suc (rx_size a)"
| "rx_size _ = 0"

text \<open>\<^verbatim>\<open>\b\<close>: exactly one side is a word character.\<close>

definition at_boundary :: "nat option \<Rightarrow> str \<Rightarrow> bool" where
  "at_boundary pv rest \<longleftrightarrow>
     (case pv of None \<Rightarrow> False | Some c \<Rightarrow> is_word c)
     \<noteq> (case rest of [] \<Rightarrow> False | c # cs \<Rightarrow> is_word c)"

function rmatch :: "rx \<Rightarrow> cfg \<Rightarrow> cfg list" where
  "rmatch (Atom p) (pv, rest, caps) =
     (case rest of [] \<Rightarrow> [] | c # cs \<Rightarrow> if p c then [(Some c, cs, caps)] else [])"
| "rmatch Eps k = [k]"
| "rmatch (Seq a b) k = concat (map (rmatch b) (rmatch a k))"
| "rmatch (Alt a b) k = rmatch a k @ rmatch b k"
| "rmatch (Rep a m n g) (pv, rest, caps) =
     (if g
      then (if n = Some 0 then []
            else concat (map (\<lambda>k'. if length (fst (snd k')) < length rest
                                    then rmatch (Rep a (m - 1) (map_option (\<lambda>i. i - 1) n) g) k'
                                    else [])
                             (rmatch a (pv, rest, caps))))
           @ (if m = 0 then [(pv, rest, caps)] else [])
      else (if m = 0 then [(pv, rest, caps)] else [])
           @ (if n = Some 0 then []
              else concat (map (\<lambda>k'. if length (fst (snd k')) < length rest
                                      then rmatch (Rep a (m - 1) (map_option (\<lambda>i. i - 1) n) g) k'
                                      else [])
                               (rmatch a (pv, rest, caps)))))"
| "rmatch (Grp i a) (pv, rest, caps) =
     map (\<lambda>(pv', rest', caps'). (pv', rest', (i, take (length rest - length rest') rest) # caps'))
         (rmatch a (pv, rest, caps))"
| "rmatch Bol (pv, rest, caps) = (if pv = None then [(pv, rest, caps)] else [])"
| "rmatch Eol (pv, rest, caps) = (if rest = [] \<or> rest = [10] then [(pv, rest, caps)] else [])"
| "rmatch Wb (pv, rest, caps) = (if at_boundary pv rest then [(pv, rest, caps)] else [])"
| "rmatch (Ahead a) k = (if rmatch a k = [] then [] else [k])"
  by pat_completeness auto
termination
  by (relation "measures [\<lambda>(r, k). rx_size r, \<lambda>(r, k). length (fst (snd k))]") auto

text \<open>\<^verbatim>\<open>m.group(i)\<close>; every group read by the source takes part in its match.\<close>

fun grp :: "captures \<Rightarrow> nat \<Rightarrow> str" where
  "grp [] i = []"
| "grp ((j, s) # caps) i = (if i = j then s else grp caps i)"

text \<open>
  The leftmost match from a position on: the text at which it starts and the position
  at which it ends.
\<close>

fun search_from :: "rx \<Rightarrow> nat option \<Rightarrow> str \<Rightarrow> (str \<times> cfg) option" where
  "search_from r pv [] = (case rmatch r (pv, [], []) of [] \<Rightarrow> None | k # ks \<Rightarrow> Some ([], k))"
| "search_from r pv (c # cs) =
     (case rmatch r (pv, c # cs, []) of
        [] \<Rightarrow> search_from r (Some c) cs
      | k # ks \<Rightarrow> Some (c # cs, k))"

text \<open>\<^verbatim>\<open>re.search\<close>, giving the groups; \<^verbatim>\<open>re.match\<close>, which tries the start only.\<close>

definition re_search :: "rx \<Rightarrow> str \<Rightarrow> captures option" where
  "re_search r s = map_option (\<lambda>(start, pv, rest, caps). caps) (search_from r None s)"

definition re_match :: "rx \<Rightarrow> str \<Rightarrow> captures option" where
  "re_match r s = (case rmatch r (None, s, []) of [] \<Rightarrow> None | (pv, rest, caps) # ks \<Rightarrow> Some caps)"

text \<open>
  \<^verbatim>\<open>re.finditer\<close> / \<^verbatim>\<open>re.findall\<close>: the matches from left to right, each search starting where
  the previous match ended. No pattern of the source matches the empty text.
\<close>

function finditer_from :: "rx \<Rightarrow> nat option \<Rightarrow> str \<Rightarrow> captures list" where
  "finditer_from r pv s =
     (case search_from r pv s of
        None \<Rightarrow> []
      | Some (start, (pv', rest', caps)) \<Rightarrow>
          caps # (if length rest' < length s then finditer_from r pv' rest' else []))"
  by pat_completeness auto
termination
  by (relation "measure (\<lambda>(r, pv, s). length s)") auto

definition finditer :: "rx \<Rightarrow> str \<Rightarrow> captures list" where
  "finditer r s = finditer_from r None s"

fun seqs :: "rx list \<Rightarrow> rx" where
  "seqs [] = Eps"
| "seqs [r] = r"
| "seqs (r # rs) = Seq r (seqs rs)"

fun alts :: "rx list \<Rightarrow> rx" where
  "alts [] = Eps"
| "alts [r] = r"
| "alts (r # rs) = Alt r (alts rs)"

definition sym :: "nat \<Rightarrow> rx" where
  "sym c = Atom (\<lambda>x. x = c)"

text \<open>A literal; with \<^verbatim>\<open>re.IGNORECASE\<close>, a literal compared in lower case.\<close>

definition lit :: "str \<Rightarrow> rx" where
  "lit s = seqs (map sym s)"

definition ci_lit :: "str \<Rightarrow> rx" where
  "ci_lit s = seqs (map (\<lambda>c. Atom (\<lambda>x. lower_cp x = lower_cp c)) s)"

definition digit :: rx where
  "digit = Atom is_digit"

definition space :: rx where
  "space = Atom is_space"

definition many :: "rx \<Rightarrow> rx" where
  "many r = Rep r 0 None True"

definition many1 :: "rx \<Rightarrow> rx" where
  "many1 r = Rep r 1 None True"

definition optional :: "rx \<Rightarrow> rx" where
  "optional r = Rep r 0 (Some 1) True"

definition exactly :: "nat \<Rightarrow> rx \<Rightarrow> rx" where
  "exactly n r = Rep r n (Some n) True"

text \<open>The value of a string of decimal digits (\<^verbatim>\<open>int(num)\<close>).\<close>

definition int_of_digits :: "str \<Rightarrow> nat" where
  "int_of_digits s = foldl (\<lambda>a c. 10 * a + (c - 48)) 0 s"

section \<open>The issuing-service client (app/services/tinred_client.py)\<close>

text \<open>
  What the HTTP layer does with one request is an input of the model: the library call
  times out, cannot connect, fails otherwise (with the text of the exception), or yields
  a status code and a body, which is JSON or not.
\<close>

datatype http_outcome = Timeout | ConnectionError | OtherFailure str
  | Response nat "json option"

text \<open>\<^verbatim>\<open>_request\<close> returns the decoded body or raises \<^verbatim>\<open>TinRedAPIError\<close> (with its message).\<close>

datatype request_result = Returned json | Raised str

fun show_digits :: "nat \<Rightarrow> nat \<Rightarrow> str" where
  "show_digits 0 n = []"
| "show_digits (Suc fuel) n =
     (if n < 10 then [48 + n] else show_digits fuel (n div 10) @ [48 + n mod 10])"

text \<open>\<^verbatim>\<open>str(n)\<close> for a natural number.\<close>

definition show_nat :: "nat \<Rightarrow> str" where
  "show_nat n = show_digits (Suc n) n"

fun lookup :: "(str \<times> json) list \<Rightarrow> str \<Rightarrow> json option" where
  "lookup [] k = None"
| "lookup ((k', v) # kvs) k = (if k' = k then Some v else lookup kvs k)"

text \<open>
  The text of a value that is used as a message. A string is itself; for a container
  Python prints its \<^verbatim>\<open>repr\<close>, which the model abbreviates.
\<close>

fun text_of :: "json \<Rightarrow> str" where
  "text_of (JStr s) = s"
| "text_of (JOther t) = t"
| "text_of (JList l) = u ''[...]''"
| "text_of (JObj d) = u ''{...}''"

text \<open>
  With a status of 400 or more the message is \<^verbatim>\<open>data.get('mensaje', f'Error {status}')\<close>;
  on a body that is not an object this raises \<^verbatim>\<open>AttributeError\<close>, which the last handler
  of \<^verbatim>\<open>_request\<close> wraps again.
\<close>

definition request :: "http_outcome \<Rightarrow> request_result" where
  "request h =
     (case h of
        Timeout \<Rightarrow> Raised (u ''Timeout'')
      | ConnectionError \<Rightarrow> Raised (u ''Sin conexi'' @ [243] @ u ''n'')
      | OtherFailure m \<Rightarrow> Raised m
      | Response status None \<Rightarrow> Raised (u ''Respuesta inv'' @ [225] @ u ''lida'')
      | Response status (Some data) \<Rightarrow>
          if status \<ge> 400 then
            (case data of
               JObj d \<Rightarrow>
                 (case lookup d (u ''mensaje'') of
                    Some m \<Rightarrow> Raised (text_of m)
                  | None \<Rightarrow> Raised (u ''Error '' @ show_nat status))
             | _ \<Rightarrow> Raised (u ''object has no attribute get''))
          else Returned data)"

text \<open>The calls made on the client, in the order they are made.\<close>

datatype tinred_call =
    Check_client str str
  | Emit_invoice "ClientIdentification option" "str option" "str option" "str option"
      "str option" "InvoiceItem list"
  | Get_products str
  | Get_clients str
  | Get_history str

text \<open>\<^verbatim>\<open>get_products\<close>, \<^verbatim>\<open>get_clients\<close>, \<^verbatim>\<open>get_history\<close>: a list, or \<open>[]\<close> on anything else.\<close>

definition get_list :: "request_result \<Rightarrow> json list" where
  "get_list r = (case r of Returned (JList l) \<Rightarrow> l | _ \<Rightarrow> [])"

section \<open>The session manager (app/services/session_manager.py)\<close>

fun is_obj :: "json \<Rightarrow> bool" where
  "is_obj (JObj d) = True"
| "is_obj _ = False"

text \<open>
  \<^verbatim>\<open>load_user_context\<close>. The three results are what the requests would answer, \<open>now\<close> is
  the clock. The result is the returned flag, the session and the calls made. Building
  the \<^verbatim>\<open>UserContext\<close> fails validation when a list element is not an object, which the
  handler turns into an empty, stamped context.
\<close>

definition load_user_context ::
  "request_result \<Rightarrow> request_result \<Rightarrow> request_result \<Rightarrow> int \<Rightarrow> UserSession \<Rightarrow> bool
    \<Rightarrow> bool \<times> UserSession \<times> tinred_call list" where
  "load_user_context rp rc rh now s force =
     (if \<not> force \<and> is_loaded (user_context s) \<and> \<not> is_stale now 60 (user_context s)
      then (True, s, [])
      else
        let ps = get_list rp; cs = get_list rc; hs = get_list rh;
            calls = [Get_products (phone s), Get_clients (phone s), Get_history (phone s)]
        in if list_all is_obj ps \<and> list_all is_obj cs \<and> list_all is_obj hs
           then (True, s \<lparr> user_context := \<lparr> clients = cs, products = ps, history = hs,
                   loaded_at = Some now \<rparr> \<rparr>, calls)
           else (False, s \<lparr> user_context := UserContext_init \<lparr> loaded_at := Some now \<rparr> \<rparr>,
                 calls))"

text \<open>
  \<^verbatim>\<open>check_client\<close>. The body of its \<^verbatim>\<open>try\<close> returns a pair or raises; the two handlers turn
  every exception into a pair. A body that is not an object makes \<^verbatim>\<open>"01" in response\<close>,
  \<^verbatim>\<open>response["01"]\<close> or \<^verbatim>\<open>response.items()\<close> raise; Python's own wording of these two
  errors is replaced by the name of the exception class.
\<close>

datatype exn = TinRedAPIError str | TypeError | AttributeError

fun exn_text :: "exn \<Rightarrow> str" where
  "exn_text (TinRedAPIError m) = m"
| "exn_text TypeError = u ''TypeError''"
| "exn_text AttributeError = u ''AttributeError''"

text \<open>The first value of the object that is a string of more than two characters.\<close>

fun first_long_string :: "(str \<times> json) list \<Rightarrow> str option" where
  "first_long_string [] = None"
| "first_long_string ((k, JStr v) # kvs) =
     (if k \<noteq> u ''00'' \<and> length v > 2 then Some v else first_long_string kvs)"
| "first_long_string ((k, v) # kvs) = first_long_string kvs"

definition check_client_body :: "request_result \<Rightarrow> exn + (bool \<times> str)" where
  "check_client_body r =
     (case r of
        Raised m \<Rightarrow> Inl (TinRedAPIError m)
      | Returned (JObj d) \<Rightarrow>
          (case lookup d (u ''01'') of
             Some name \<Rightarrow> Inr (True, text_of name)
           | None \<Rightarrow>
               (case lookup d (u ''00'') of
                  Some message \<Rightarrow> Inr (False, text_of message)
                | None \<Rightarrow>
                    (case first_long_string d of
                       Some v \<Rightarrow> Inr (True, v)
                     | None \<Rightarrow> Inr (False, u ''Respuesta no reconocida del servidor''))))
      | Returned (JList l) \<Rightarrow>
          (if JStr (u ''01'') \<in> set l \<or> JStr (u ''00'') \<in> set l then Inl TypeError
           else Inl AttributeError)
      | Returned (JStr t) \<Rightarrow>
          (if contains t (u ''01'') \<or> contains t (u ''00'') then Inl TypeError
           else Inl AttributeError)
      | Returned (JOther t) \<Rightarrow> Inl TypeError)"

definition check_client :: "request_result \<Rightarrow> bool \<times> str" where
  "check_client r =
     (case check_client_body r of
        Inr p \<Rightarrow> p
      | Inl (TinRedAPIError m) \<Rightarrow> (False, u ''Error de conexi'' @ [243] @ u ''n: '' @ m)
      | Inl e \<Rightarrow> (False, u ''Error inesperado: '' @ exn_text e))"

section \<open>The emission agent (app/agents/emission_agent.py)\<close>

text \<open>
  Arithmetic on \<^verbatim>\<open>float\<close> is outside the model. The three renderings the agent needs are
  parameters: \<^verbatim>\<open>f"{float(s):.2f}"\<close>, \<^verbatim>\<open>f"{item.subtotal():.2f}"\<close> and
  \<^verbatim>\<open>f"{calculate_total():.2f}"\<close>. The price and the quantity of an item are decimal
  literals (every writer of the repository produces one), so \<^verbatim>\<open>float\<close> does not raise on them.
  The fourth parameter is \<^verbatim>\<open>str(int(float(s)))\<close>, which the payload of the issuance call
  needs for every quantity: \<open>None\<close> when the conversion raises, as \<^verbatim>\<open>int\<close> does
  (\<^verbatim>\<open>OverflowError\<close>) on a quantity of so many digits that its \<^verbatim>\<open>float\<close> is infinite.
\<close>

record float_text =
  fmt2 :: "str \<Rightarrow> str"
  subtotal2 :: "InvoiceItem \<Rightarrow> str"
  total2 :: "InvoiceItem list \<Rightarrow> str"
  quantity_text :: "str \<Rightarrow> str option"

text \<open>An \<^verbatim>\<open>Optional[str]\<close> inside an f-string.\<close>

fun opt_text :: "str option \<Rightarrow> str" where
  "opt_text None = u ''None''"
| "opt_text (Some s) = s"

definition summary_line :: "float_text \<Rightarrow> str \<Rightarrow> InvoiceItem \<Rightarrow> str" where
  "summary_line fl symbol item =
     u ''  '' @ [8226] @ u '' '' @ cantidad item @ u ''x '' @ descripcion item @ u '' @ ''
     @ symbol @ fmt2 fl (precio item) @ u '' = '' @ symbol @ subtotal2 fl item @ [10]"

definition generate_summary :: "float_text \<Rightarrow> UserSession \<Rightarrow> str \<times> UserSession" where
  "generate_summary fl s =
     (let e = emission_data s;
          tipo = (if document_type e = Some (u ''01'') then u ''FACTURA '' @ [128196]
                  else u ''BOLETA '' @ [129534]);
          id_tipo = (if id_type e = Some (u ''1'') then u ''DNI'' else u ''RUC'');
          symbol = (if currency e = Some (u ''PEN'') then u ''S/'' else u ''$'');
          client_line = (if truthy (client_name e)
                         then [10, 128100] @ u '' '' @ opt_text (client_name e) else []);
          items_text = concat (map (summary_line fl symbol) (items e))
      in ([128203] @ u '' '' @ tipo @ [10, 10, 128203] @ u '' '' @ id_tipo @ u '': ''
          @ opt_text (id_number e) @ client_line @ [10, 10, 128230] @ u '' Productos:'' @ [10]
          @ items_text
          @ [10, 9473, 9473, 9473, 9473, 9473, 9473, 9473, 9473, 9473, 9473, 9473, 9473, 10, 128181]
          @ u '' TOTAL: '' @ symbol @ total2 fl (items e) @ [10, 10, 191] @ u ''Emitir? '' @ [9989]
          @ u '' S'' @ [237] @ u '' / '' @ [10060] @ u '' No'',
          s \<lparr> awaiting_confirmation := True \<rparr>))"

fun join_comma :: "str list \<Rightarrow> str" where
  "join_comma [] = []"
| "join_comma [x] = x"
| "join_comma (x # xs) = x @ u '', '' @ join_comma xs"

text \<open>\<^verbatim>\<open>_request_data\<close>, after its first block.\<close>

definition request_data_rest :: "float_text \<Rightarrow> str list \<Rightarrow> UserSession \<Rightarrow> str \<times> UserSession" where
  "request_data_rest fl missing s =
     (let e = emission_data s in
      if missing = [] then generate_summary fl s
      else if u ''identificacion_cliente'' \<in> set missing
      then ([191] @ u ''DNI o RUC del cliente?'', s)
      else if u ''productos'' \<in> set missing
      then (if client_validated e \<and> truthy (client_name e)
            then ([128100] @ u '' Cliente: '' @ opt_text (client_name e) @ [10, 128203] @ u '' Doc: ''
                  @ opt_text (id_number e) @ [10, 10, 191] @ u ''Qu'' @ [233] @ u '' productos?''
                  @ [10, 128221] @ u '' Ej: 2 laptops a 2500'', s)
            else ([191] @ u ''Qu'' @ [233] @ u '' productos?'' @ [10, 128221]
                  @ u '' Ej: 2 laptops a 2500'', s))
      else (u ''Falta: '' @ join_comma missing, s))"

definition request_data :: "float_text \<Rightarrow> str list \<Rightarrow> UserSession \<Rightarrow> str \<times> UserSession" where
  "request_data fl missing s =
     (let e = emission_data s in
      if u ''tipo_documento'' \<in> set missing
      then (if id_type e = Some (u ''1'')
            then request_data_rest fl (remove1 (u ''tipo_documento'') missing)
                   (s \<lparr> emission_data := e \<lparr> document_type := Some (u ''03'') \<rparr> \<rparr>)
            else if id_type e = Some (u ''6'')
            then (u ''RUC '' @ opt_text (id_number e) @ [10, 10, 191] @ u ''Factura o Boleta?'', s)
            else ([191] @ u ''Factura o Boleta?'', s))
      else request_data_rest fl missing s)"

definition not_found_line :: "float_text \<Rightarrow> InvoiceItem \<Rightarrow> str" where
  "not_found_line fl item =
     u ''  '' @ [8226] @ u '' '' @ cantidad item @ u ''x '' @ descripcion item @ u '' @ S/''
     @ fmt2 fl (precio item) @ [10]"

text \<open>The reply of \<^verbatim>\<open>_validate_and_continue\<close> when the client is not found.\<close>

definition not_found_reply :: "float_text \<Rightarrow> EmissionData \<Rightarrow> str" where
  "not_found_reply fl e =
     [9888, 65039] @ u '' El documento '' @ opt_text (id_number e)
     @ u '' no fue encontrado en el sistema.'' @ [10]
     @ (if items e \<noteq> []
        then [10, 128230] @ u '' Ya tengo registrados tus productos:'' @ [10]
             @ concat (map (not_found_line fl) (items e))
             @ [10] @ u ''Por favor confirma el n'' @ [250]
             @ u ''mero de documento correcto para continuar.'' @ [10, 128161]
             @ u '' Escribe el DNI (8 d'' @ [237] @ u ''gitos) o RUC (11 d'' @ [237] @ u ''gitos)''
        else [10] @ u ''Por favor verifica e ingresa el n'' @ [250] @ u ''mero correcto.''
             @ [10, 128161] @ u '' DNI: 8 d'' @ [237] @ u ''gitos | RUC: 11 d'' @ [237] @ u ''gitos'')"

text \<open>
  \<^verbatim>\<open>_validate_and_continue\<close>; \<open>r\<close> is what the request of \<^verbatim>\<open>check_client\<close> yields. The result
  is the reply, the session and the calls made on the client.
\<close>

definition validate_and_continue ::
  "float_text \<Rightarrow> request_result \<Rightarrow> UserSession \<Rightarrow> str \<times> UserSession \<times> tinred_call list" where
  "validate_and_continue fl r s =
     (let e = emission_data s in
      if \<not> truthy (id_number e) then (u ''Necesito el DNI o RUC del cliente.'', s, [])
      else
        (case check_client r of
           (is_valid, result) \<Rightarrow>
             if is_valid
             then
               (let e' = e \<lparr> client_validated := True, client_name := Some result \<rparr>;
                    s' = s \<lparr> emission_data := e' \<rparr>
                in if items e' \<noteq> []
                   then (case generate_summary fl s' of
                           (txt, s'') \<Rightarrow> (txt, s'', [Check_client (phone s) (opt_text (id_number e))]))
                   else ([9989] @ u '' Cliente encontrado:'' @ [10, 128100] @ u '' '' @ result
                         @ [10, 128203] @ u '' ''
                         @ (if id_type e' = Some (u ''1'') then u ''DNI'' else u ''RUC'') @ u '': ''
                         @ opt_text (id_number e') @ [10, 10, 191] @ u ''Qu'' @ [233]
                         @ u '' productos incluimos?'' @ [10, 128221]
                         @ u '' Ej: 2 laptops a 2500, 3 cables a 50'',
                         s', [Check_client (phone s) (opt_text (id_number e))]))
             else (not_found_reply fl e, s \<lparr> awaiting_client_reconfirmation := True \<rparr>,
                   [Check_client (phone s) (opt_text (id_number e))])))"

definition has_complete_data :: "EmissionData \<Rightarrow> bool" where
  "has_complete_data e \<longleftrightarrow> truthy (document_type e) \<and> truthy (id_number e) \<and> items e \<noteq> []"

text \<open>The patterns of \<^verbatim>\<open>_extract_from_conversation\<close>.\<close>

definition rx_ruc :: rx where
  "rx_ruc = seqs [Wb, Grp 1 (seqs [Atom (\<lambda>c. c = 49 \<or> c = 50), sym 48, exactly 9 digit]), Wb]"

definition rx_dni :: rx where
  "rx_dni = seqs [Wb, Grp 1 (exactly 8 digit), Wb]"

definition es_lower :: "nat \<Rightarrow> bool" where
  "es_lower c \<longleftrightarrow> (97 \<le> c \<and> c \<le> 122) \<or> c = 225 \<or> c = 233 \<or> c = 237 \<or> c = 243 \<or> c = 250
     \<or> c = 241"

definition rx_conversation_item :: rx where
  "rx_conversation_item =
     seqs [Grp 1 (many1 digit), many1 space, Grp 2 (many1 (Atom es_lower)), many space,
           alts [sym 120, sym 97, sym 64, lit (u ''por'')], many space, Grp 3 (many1 digit)]"

text \<open>One round of the loop over the last ten messages.\<close>

definition conversation_step :: "float_text \<Rightarrow> EmissionData \<Rightarrow> ConversationMessage \<Rightarrow> EmissionData" where
  "conversation_step fl e msg =
     (let c = content msg;
          e1 = (if \<not> truthy (document_type e)
                then (if contains (lower c) (u ''factura'') then e \<lparr> document_type := Some (u ''01'') \<rparr>
                      else if contains (lower c) (u ''boleta'') then e \<lparr> document_type := Some (u ''03'') \<rparr>
                      else e)
                else e);
          e2 = (if \<not> truthy (id_number e1)
                then (case re_search rx_ruc c of
                        Some caps \<Rightarrow> e1 \<lparr> id_type := Some (u ''6''), id_number := Some (grp caps 1) \<rparr>
                      | None \<Rightarrow> e1)
                else e1);
          e3 = (if \<not> truthy (id_number e2)
                then (case re_search rx_dni c of
                        Some caps \<Rightarrow>
                          if int_of_digits (grp caps 1) \<ge> 1000000
                          then e2 \<lparr> id_type := Some (u ''1''), id_number := Some (grp caps 1) \<rparr>
                          else e2
                      | None \<Rightarrow> e2)
                else e2)
      in if items e3 = []
         then e3 \<lparr> items := map (\<lambda>caps. \<lparr> cantidad = grp caps 1, descripcion = grp caps 2,
                                           precio = fmt2 fl (grp caps 3) \<rparr>)
                                (finditer rx_conversation_item (lower c)) \<rparr>
         else e3)"

definition extract_from_conversation :: "float_text \<Rightarrow> UserSession \<Rightarrow> UserSession" where
  "extract_from_conversation fl s =
     (let e = foldl (conversation_step fl) (emission_data s)
                (drop (length (messages s) - 10) (messages s))
      in s \<lparr> emission_data :=
              (if id_type e = Some (u ''1'') \<and> \<not> truthy (document_type e)
               then e \<lparr> document_type := Some (u ''03'') \<rparr> else e) \<rparr>)"

text \<open>
  What \<^verbatim>\<open>emit_invoice\<close> does. It builds the payload first: it reads \<^verbatim>\<open>client_data\<close> (an
  \<^verbatim>\<open>AttributeError\<close> without it) and converts every quantity with
  \<^verbatim>\<open>str(int(float(item.cantidad)))\<close>, which may raise; in both cases no request is sent.
  Then it sends the request, lets a \<^verbatim>\<open>TinRedAPIError\<close> through and builds an
  \<^verbatim>\<open>InvoiceResponse\<close> from the body; \<open>parse\<close> is that last step, which fails when the body
  does not validate.
\<close>

datatype emit_result = Emit_response InvoiceResponse | Emit_TinRedAPIError str | Emit_Exception

definition emit_invoice ::
  "float_text \<Rightarrow> ClientIdentification option \<Rightarrow> InvoiceItem list \<Rightarrow> request_result
    \<Rightarrow> (json \<Rightarrow> InvoiceResponse option) \<Rightarrow> emit_result" where
  "emit_invoice fl cd its r parse =
     (case cd of
        None \<Rightarrow> Emit_Exception
      | Some d \<Rightarrow>
          if list_ex (\<lambda>item. quantity_text fl (cantidad item) = None) its then Emit_Exception
          else
            (case r of
               Raised m \<Rightarrow> Emit_TinRedAPIError m
             | Returned body \<Rightarrow>
                 (case parse body of None \<Rightarrow> Emit_Exception | Some resp \<Rightarrow> Emit_response resp)))"

text \<open>\<^verbatim>\<open>record_emission\<close> (session manager), at time \<open>now\<close>.\<close>

definition record_emission ::
  "int \<Rightarrow> UserSession \<Rightarrow> str option \<Rightarrow> str \<Rightarrow> str \<Rightarrow> str \<Rightarrow> str \<Rightarrow> str \<Rightarrow> nat \<Rightarrow> UserSession" where
  "record_emission now s doc serie_num cid tot cur url n =
     s \<lparr> session_emissions := session_emissions s @
           [\<lparr> rec_timestamp = now,
              rec_document_type = (if doc = Some (u ''01'') then u ''Factura'' else u ''Boleta''),
              serie_numero = serie_num, client_id = cid, rec_total = tot, rec_currency = cur,
              pdf_url = url, items_count = n \<rparr>] \<rparr>"

text \<open>The session on which \<^verbatim>\<open>execute_emission\<close> decides: missing data is looked for in the conversation first.\<close>

definition backfilled :: "float_text \<Rightarrow> UserSession \<Rightarrow> UserSession" where
  "backfilled fl s =
     (if \<not> has_complete_data (emission_data s) then extract_from_conversation fl s else s)"

text \<open>
  \<^verbatim>\<open>execute_emission\<close>. \<open>rc\<close> and \<open>re\<close> are what the requests of \<^verbatim>\<open>check_client\<close> and of
  \<^verbatim>\<open>emit_invoice\<close> yield. An \<^verbatim>\<open>EmissionRecord\<close> needs a client id and a currency that are
  strings; without them \<^verbatim>\<open>record_emission\<close> raises inside the \<^verbatim>\<open>try\<close>.
\<close>

definition execute_emission ::
  "float_text \<Rightarrow> request_result \<Rightarrow> request_result \<Rightarrow> (json \<Rightarrow> InvoiceResponse option) \<Rightarrow> int
    \<Rightarrow> UserSession \<Rightarrow> str \<times> UserSession \<times> tinred_call list" where
  "execute_emission fl rc re parse now s0 =
     (let s = backfilled fl s0;
          e = emission_data s;
          missing = get_missing_fields e
      in if missing \<noteq> []
         then (case request_data fl missing s of (txt, s') \<Rightarrow> (txt, s', []))
         else if \<not> client_validated e then validate_and_continue fl rc s
         else
           (let call = Emit_invoice (client_data s) (document_type e) (currency e) (id_type e)
                         (id_number e) (items e)
            in case emit_invoice fl (client_data s) (items e) re parse of
                 Emit_response response \<Rightarrow>
                   if is_successful response
                   then
                     (case (id_number e, currency e) of
                        (Some cid, Some cur) \<Rightarrow>
                          ([9989] @ u '' '' @ [161]
                           @ (if document_type e = Some (u ''01'') then u ''Factura'' else u ''Boleta'')
                           @ u '' emitida!''
                           @ (if truthy (client_name e)
                              then [10, 128100] @ u '' '' @ opt_text (client_name e) else [])
                           @ [10, 10, 128196] @ u '' '' @ get_full_number response @ [10, 128176]
                           @ u '' S/'' @ total2 fl (items e) @ [10, 10, 128229] @ u '' PDF: ''
                           @ pdf response @ [10, 10, 191] @ u ''Algo m'' @ [225] @ u ''s?'',
                           reset_emission
                             (record_emission now s (document_type e) (get_full_number response)
                                cid (total2 fl (items e)) cur (pdf response) (length (items e))),
                           [call])
                      | _ \<Rightarrow> ([10060] @ u '' Error inesperado.'', s, [call]))
                   else ([9888, 65039] @ u '' Error: '' @ mensaje response, s, [call])
               | Emit_TinRedAPIError m \<Rightarrow> ([10060] @ u '' Error: '' @ m, s, [call])
               | Emit_Exception \<Rightarrow> ([10060] @ u '' Error inesperado.'', s, [call])))"

section \<open>The data extractor (app/agents/data_extractor.py)\<close>

text \<open>The dictionary that \<^verbatim>\<open>extract_all\<close> returns.\<close>

record Extracted =
  x_document_type :: "str option"
  x_id_type :: "str option"
  x_id_number :: "str option"
  x_currency :: "str option"
  x_items :: "InvoiceItem list"
  x_items_sin_precio :: "PendingItem list"

text \<open>The patterns of \<^verbatim>\<open>_extract_id\<close>.\<close>

definition rx_dni_explicit :: rx where
  "rx_dni_explicit = seqs [lit (u ''DNI''), many space, optional (Atom (\<lambda>c. c = 58 \<or> is_space c)),
     many space, Grp 1 (exactly 8 digit), Wb]"

definition rx_ruc_explicit :: rx where
  "rx_ruc_explicit = seqs [lit (u ''RUC''), many space, optional (Atom (\<lambda>c. c = 58 \<or> is_space c)),
     many space, Grp 1 (seqs [Atom (\<lambda>c. c = 49 \<or> c = 50), sym 48, exactly 9 digit]), Wb]"

definition rx_dni_loose :: rx where
  "rx_dni_loose = seqs [Alt Bol (Atom (\<lambda>c. \<not> is_digit c)), Grp 1 (exactly 8 digit),
     Alt (Atom (\<lambda>c. \<not> is_digit c)) Eol]"

text \<open>The loop over the loose eight-digit matches: the first one that is at least 1000000.\<close>

fun first_valid_dni :: "str list \<Rightarrow> str option" where
  "first_valid_dni [] = None"
| "first_valid_dni (num # nums) =
     (if int_of_digits num \<ge> 1000000 then Some num else first_valid_dni nums)"

text \<open>\<^verbatim>\<open>_extract_id\<close>: the ID type and the number.\<close>

definition extract_id :: "str \<Rightarrow> (str \<times> str) option" where
  "extract_id message =
     (case re_search rx_dni_explicit (upper message) of
        Some caps \<Rightarrow> Some (u ''1'', grp caps 1)
      | None \<Rightarrow>
          (case re_search rx_ruc_explicit (upper message) of
             Some caps \<Rightarrow> Some (u ''6'', grp caps 1)
           | None \<Rightarrow>
               (case re_search rx_ruc message of
                  Some caps \<Rightarrow> Some (u ''6'', grp caps 1)
                | None \<Rightarrow>
                    (case first_valid_dni (map (\<lambda>caps. grp caps 1) (finditer rx_dni_loose message)) of
                       Some num \<Rightarrow> Some (u ''1'', num)
                     | None \<Rightarrow> None))))"

text \<open>The patterns of \<^verbatim>\<open>_extract_items\<close>, all with \<^verbatim>\<open>re.IGNORECASE\<close>.\<close>

definition es_letter :: "nat \<Rightarrow> bool" where
  "es_letter c \<longleftrightarrow> es_lower (lower_cp c)"

definition money_prefix :: rx where
  "money_prefix = optional (alts [ci_lit (u ''PEN''), ci_lit (u ''USD''), ci_lit (u ''S/''),
     ci_lit (u ''s/''), sym 36])"

definition amount :: rx where
  "amount = seqs [many1 digit, optional (seqs [Atom (\<lambda>c. c = 46 \<or> c = 44), Rep digit 1 (Some 2) True])]"

definition description_lazy :: rx where
  "description_lazy = Seq (Atom es_letter) (Rep (Atom (\<lambda>c. es_letter c \<or> is_space c)) 1 (Some 30) False)"

definition pattern1 :: rx where
  "pattern1 = seqs [Grp 1 (Rep digit 1 (Some 4) True), many space,
     optional (Atom (\<lambda>c. lower_cp c = 120 \<or> c = 215)), many space, Grp 2 description_lazy,
     many space, Atom (\<lambda>c. c = 64 \<or> lower_cp c = 97), many space, money_prefix, many space,
     Grp 3 amount]"

definition pattern2 :: rx where
  "pattern2 = seqs [Grp 1 (Rep digit 1 (Some 4) True), many1 space, Grp 2 description_lazy,
     many1 space, Alt (ci_lit (u ''por'')) (ci_lit (u ''de'')), many1 space, money_prefix,
     many space, Grp 3 amount]"

definition pattern3 :: rx where
  "pattern3 = seqs [Wb, Grp 1 (Seq (Atom es_letter) (Rep (Atom es_letter) 2 (Some 20) True)),
     many1 space, alts [ci_lit (u ''a''), sym 64, ci_lit (u ''por'')], many1 space, money_prefix,
     many space, Grp 2 amount, Wb]"

definition pattern_sin_precio :: rx where
  "pattern_sin_precio = seqs [Grp 1 (Rep digit 1 (Some 3) True), many1 space,
     Grp 2 (Seq (Atom es_letter) (Rep (Atom es_letter) 2 (Some 25) True))]"

text \<open>The number words, in the order of the dictionary.\<close>

definition palabras_numero :: "(str \<times> str) list" where
  "palabras_numero =
     [(u ''un '', u ''1 ''), (u ''uno '', u ''1 ''), (u ''una '', u ''1 ''), (u ''dos '', u ''2 ''),
      (u ''tres '', u ''3 ''), (u ''cuatro '', u ''4 ''), (u ''cinco '', u ''5 ''),
      (u ''seis '', u ''6 ''), (u ''siete '', u ''7 ''), (u ''ocho '', u ''8 ''),
      (u ''nueve '', u ''9 ''), (u ''diez '', u ''10 '')]"

definition text_normalized :: "str \<Rightarrow> str option \<Rightarrow> str" where
  "text_normalized message exclude_number =
     foldl (\<lambda>t (palabra, num). replace t palabra num)
       (lower (case exclude_number of
                 None \<Rightarrow> message
               | Some n \<Rightarrow> if n = [] then message else replace message n (u '' '')))
       palabras_numero"

text \<open>
  \<^verbatim>\<open>float(precio) > 0\<close> for a price that the patterns captured, digits with at most one
  point: some digit is not zero.
\<close>

definition positive_price :: "str \<Rightarrow> bool" where
  "positive_price p \<longleftrightarrow> list_ex (\<lambda>c. 49 \<le> c \<and> c \<le> 57) p"

text \<open>The key of the sets \<^verbatim>\<open>seen\<close> and \<^verbatim>\<open>existing\<close>.\<close>

definition item_key :: "InvoiceItem \<Rightarrow> str \<times> str" where
  "item_key i = (lower (descripcion i), precio i)"

text \<open>
  What the three loops read from their matches, before the tests on \<^verbatim>\<open>seen\<close>: the matches
  that reach the test (the others meet \<^verbatim>\<open>continue\<close>), as items.
\<close>

definition candidates1 :: "str \<Rightarrow> InvoiceItem list" where
  "candidates1 t =
     map (\<lambda>caps. \<lparr> cantidad = grp caps 1, descripcion = strip (grp caps 2),
                    precio = replace (grp caps 3) (u '','') (u ''.'') \<rparr>)
       (filter (\<lambda>caps. \<not> length (grp caps 1) \<ge> 5) (finditer pattern1 t))"

definition candidates2 :: "str \<Rightarrow> InvoiceItem list" where
  "candidates2 t =
     map (\<lambda>caps. \<lparr> cantidad = grp caps 1, descripcion = strip (grp caps 2),
                    precio = replace (grp caps 3) (u '','') (u ''.'') \<rparr>)
       (filter (\<lambda>caps. \<not> length (grp caps 1) \<ge> 5) (finditer pattern2 t))"

definition candidates3 :: "str \<Rightarrow> InvoiceItem list" where
  "candidates3 t =
     map (\<lambda>caps. \<lparr> cantidad = u ''1'', descripcion = strip (grp caps 1),
                    precio = replace (grp caps 2) (u '','') (u ''.'') \<rparr>)
       (filter (\<lambda>caps. lower (strip (grp caps 1)) \<notin> set [u ''factura'', u ''boleta'', u ''dni'',
                          u ''ruc'', u ''para'', u ''cliente'', u ''documento''])
          (finditer pattern3 t))"

text \<open>The body of each loop: an item is appended when its key is new, its description is not empty and its price is positive.\<close>

fun collect :: "InvoiceItem list \<Rightarrow> InvoiceItem list \<times> (str \<times> str) list
    \<Rightarrow> InvoiceItem list \<times> (str \<times> str) list" where
  "collect [] acc = acc"
| "collect (c # cs) (its, seen) =
     (if item_key c \<notin> set seen \<and> descripcion c \<noteq> [] \<and> positive_price (precio c)
      then collect cs (its @ [c], seen @ [item_key c])
      else collect cs (its, seen))"

definition candidates_sin_precio :: "str \<Rightarrow> PendingItem list" where
  "candidates_sin_precio t =
     map (\<lambda>caps. \<lparr> pend_cantidad = grp caps 1, pend_descripcion = strip (grp caps 2) \<rparr>)
       (filter (\<lambda>caps. lower (strip (grp caps 2)) \<notin> set [u ''dni'', u ''ruc'', u ''para'',
                          u ''cliente'', u ''boleta'', u ''factura'', u ''soles'', u ''dolares'',
                          u ''documento''])
          (finditer pattern_sin_precio t))"

fun collect_sin_precio :: "PendingItem list \<Rightarrow> PendingItem list \<times> str list
    \<Rightarrow> PendingItem list \<times> str list" where
  "collect_sin_precio [] acc = acc"
| "collect_sin_precio (c # cs) (its, seen) =
     (if lower (pend_descripcion c) \<notin> set seen
      then collect_sin_precio cs (its @ [c], seen @ [lower (pend_descripcion c)])
      else collect_sin_precio cs (its, seen))"

text \<open>\<^verbatim>\<open>_extract_items\<close>: the items with a price and the items without.\<close>

definition extract_items :: "str \<Rightarrow> str option \<Rightarrow> InvoiceItem list \<times> PendingItem list" where
  "extract_items message exclude_number =
     (let t = text_normalized message exclude_number;
          its = fst (collect (candidates3 t) (collect (candidates2 t) (collect (candidates1 t) ([], []))))
      in (its, if its = [] then fst (collect_sin_precio (candidates_sin_precio t) ([], [])) else []))"

definition rx_factura :: rx where
  "rx_factura = seqs [Wb, lit (u ''factura''), Wb]"

definition rx_boleta :: rx where
  "rx_boleta = seqs [Wb, lit (u ''boleta''), Wb]"

definition has_dollar :: "str \<Rightarrow> bool" where
  "has_dollar text_lower \<longleftrightarrow>
     list_ex (contains text_lower)
       [u ''d'' @ [243] @ u ''lar'', u ''dolar'', u ''dolares'', u ''usd'', u ''$'']"

text \<open>\<^verbatim>\<open>extract_all\<close>; the session is not read.\<close>

definition extract_all :: "str \<Rightarrow> UserSession \<Rightarrow> Extracted" where
  "extract_all message session =
     (let text_lower = lower message;
          doc = (if re_search rx_factura text_lower \<noteq> None then Some (u ''01'')
                 else if re_search rx_boleta text_lower \<noteq> None then Some (u ''03'')
                 else None);
          id_info = extract_id message;
          doc' = (case id_info of
                    None \<Rightarrow> doc
                  | Some (ty, num) \<Rightarrow> if \<not> truthy doc \<and> ty = u ''1'' then Some (u ''03'') else doc);
          its = extract_items message (map_option snd id_info)
      in \<lparr> x_document_type = doc',
           x_id_type = map_option fst id_info,
           x_id_number = map_option snd id_info,
           x_currency = (if has_dollar text_lower then Some (u ''USD'') else Some (u ''PEN'')),
           x_items = fst its,
           x_items_sin_precio = snd its \<rparr>)"

text \<open>The loop of \<^verbatim>\<open>update_session\<close> over the extracted items.\<close>

fun merge_items :: "InvoiceItem list \<Rightarrow> InvoiceItem list \<Rightarrow> InvoiceItem list" where
  "merge_items its [] = its"
| "merge_items its (c # cs) =
     (if item_key c \<in> set (map item_key its) then merge_items its cs
      else merge_items (its @ [c]) cs)"

definition update_emission :: "EmissionData \<Rightarrow> Extracted \<Rightarrow> EmissionData" where
  "update_emission e x =
     (let e1 = (if truthy (x_document_type x) \<and> \<not> truthy (document_type e)
                then e \<lparr> document_type := x_document_type x \<rparr> else e);
          e2 = (if truthy (x_id_type x) \<and> \<not> truthy (id_type e1)
                then e1 \<lparr> id_type := x_id_type x, id_number := x_id_number x \<rparr> else e1);
          e3 = (if truthy (x_currency x) then e2 \<lparr> currency := x_currency x \<rparr> else e2)
      in if x_items x \<noteq> [] then e3 \<lparr> items := merge_items (items e3) (x_items x) \<rparr> else e3)"

text \<open>\<^verbatim>\<open>update_session\<close>\<close>

definition update_session :: "UserSession \<Rightarrow> Extracted \<Rightarrow> UserSession" where
  "update_session s x = s \<lparr> emission_data := update_emission (emission_data s) x \<rparr>"


text \<open>The utterance has the word \<^verbatim>\<open>factura\<close> or the word \<^verbatim>\<open>boleta\<close>.\<close>

definition has_document_keyword :: "str \<Rightarrow> bool" where
  "has_document_keyword message \<longleftrightarrow>
     re_search rx_factura (lower message) \<noteq> None \<or> re_search rx_boleta (lower message) \<noteq> None"

section \<open>The intent classifier (app/agents/intent_classifier.py)\<close>

text \<open>
  The pattern tables, all compiled with \<^verbatim>\<open>re.IGNORECASE\<close>. Only whether a pattern matches is
  used, so the groups of the source are written without their numbers.
\<close>

definition trailing_punctuation :: rx where
  "trailing_punctuation = many (Atom (\<lambda>c. is_space c \<or> c = 46 \<or> c = 33 \<or> c = 44))"

text \<open>\<^verbatim>\<open>^(w1|w2|...)[\s\.\!\,]*$\<close>\<close>

definition whole_word :: "str list \<Rightarrow> rx" where
  "whole_word ws = seqs [Bol, alts (map ci_lit ws), trailing_punctuation, Eol]"

text \<open>\<^verbatim>\<open>\b(w1|w2|...)\b\<close>\<close>

definition some_word :: "str list \<Rightarrow> rx" where
  "some_word ws = seqs [Wb, alts (map ci_lit ws), Wb]"

definition AFFIRMATIVE :: "rx list" where
  "AFFIRMATIVE =
     [whole_word [u ''si'', u ''s'' @ [237], u ''yes'', u ''ok'', u ''okey'', u ''okay'', u ''dale'',
        u ''confirmo'', u ''acepto''],
      whole_word [u ''adelante'', u ''procede'', u ''emite'', u ''correcto'', u ''claro'',
        u ''por supuesto''],
      whole_word [u ''est'' @ [225] @ u '' bien'', u ''esta bien'', u ''de acuerdo'', u ''listo'',
        u ''perfecto'']]"

definition NEGATIVE :: "rx list" where
  "NEGATIVE =
     [whole_word [u ''no'', u ''nop'', u ''nope'', u ''cancelar'', u ''cancela'', u ''olvida''],
      some_word [u ''mejor no'', u ''no quiero'', u ''detener'', u ''parar'', u ''salir'']]"

definition una_optional :: rx where
  "una_optional = optional (seqs [ci_lit (u ''un''), optional (ci_lit (u ''a'')), many1 space])"

definition factura_or_boleta :: rx where
  "factura_or_boleta = Alt (ci_lit (u ''factura'')) (ci_lit (u ''boleta''))"

definition EMISSION :: "rx list" where
  "EMISSION =
     [seqs [Wb, alts (map ci_lit [u ''emitir'', u ''generar'', u ''crear'', u ''hacer'',
              u ''necesito'', u ''quiero'']),
            many1 space, una_optional, factura_or_boleta, Wb],
      whole_word [u ''factura'', u ''boleta''],
      seqs [Wb, factura_or_boleta, many1 space,
            alts (map ci_lit [u ''para'', u ''con'', u ''de'']), Wb],
      seqs [Wb, ci_lit (u ''emite''), many1 space, una_optional, factura_or_boleta, Wb]]"

definition PRODUCTS :: "rx list" where
  "PRODUCTS =
     [some_word [u ''producto'', u ''productos'', u ''cat'' @ [225] @ u ''logo'', u ''catalogo'',
        u ''inventario''],
      some_word [u ''mis productos'', u ''lista de productos'', u ''ver productos''],
      seqs [Wb, alts (map ci_lit [u ''dame'', u ''muestra'', u ''ver'']), many1 space,
            optional (seqs [ci_lit (u ''los''), many1 space]), ci_lit (u ''productos''), Wb]]"

definition CLIENTS :: "rx list" where
  "CLIENTS = [some_word [u ''cliente'', u ''clientes'', u ''mis clientes'']]"

definition de_optional :: rx where
  "de_optional = optional (seqs [ci_lit (u ''de''), many1 space])"

definition HISTORY :: "rx list" where
  "HISTORY =
     [some_word [u ''historial'', u ''hist'' @ [243] @ u ''rico'', u ''historico''],
      some_word [u ''ventas'', u ''emisiones''],
      seqs [Wb, alts (map ci_lit [u ''detalle'', u ''detalles'', u ''info'']), many1 space,
            de_optional, Alt (ci_lit (u ''la'')) (ci_lit (u ''el'')), many1 space,
            alts [many1 digit, ci_lit ([250] @ u ''ltima''), ci_lit (u ''ultimo''),
                  ci_lit (u ''ultima'')],
            Wb],
      seqs [Wb, alts (map ci_lit [[250] @ u ''ltima'', u ''ultimo'', u ''ultima'', [250] @ u ''ltimo'']),
            many1 space,
            optional (alts [ci_lit (u ''factura''), ci_lit (u ''boleta''),
                            seqs [ci_lit (u ''emisi''), Atom (\<lambda>c. lower_cp c = 111 \<or> lower_cp c = 243),
                                  ci_lit (u ''n'')]]),
            Wb],
      seqs [Wb, alts (map ci_lit [u ''la'', u ''el'', u ''mi'']), many1 space, de_optional,
            ci_lit (u ''hoy''), Wb],
      seqs [Wb, factura_or_boleta, many1 space, de_optional, ci_lit (u ''hoy''), Wb],
      seqs [Wb, Alt (ci_lit (u ''emitida'')) (ci_lit (u ''generada'')), many1 space,
            ci_lit (u ''hoy''), Wb]]"

definition GENERAL_QUESTIONS :: "rx list" where
  "GENERAL_QUESTIONS =
     [some_word [u ''qu'' @ [233] @ u '' es'', u ''que es'', u ''c'' @ [243] @ u ''mo funciona'',
        u ''como funciona''],
      some_word [u ''diferencia'', u ''diferencias''],
      seqs [Wb, alts [ci_lit (u ''ayuda''), seqs [ci_lit (u ''duda''), optional (ci_lit (u ''s''))],
                      ci_lit (u ''help'')], Wb],
      some_word [u ''igv''],
      some_word [u ''explicame'', u ''expl'' @ [237] @ u ''came''],
      seqs [Wb, Alt (ci_lit (u ''c'' @ [243] @ u ''mo'')) (ci_lit (u ''como'')), many1 space,
            Alt (ci_lit (u ''emitir'')) (ci_lit (u ''hacer'')), Wb]]"

definition GREETING_PATTERNS :: "rx list" where
  "GREETING_PATTERNS =
     [whole_word [u ''hola'', u ''hey'', u ''hi'', u ''buenos d'' @ [237] @ u ''as'', u ''buenas tardes'',
        u ''buenas noches'', u ''buenas'']]"

definition PRODUCT_SEARCH :: "rx list" where
  "PRODUCT_SEARCH =
     [some_word [u ''busca'', u ''buscar'', u ''encuentra'', u ''encontrar'', u ''filtrar'', u ''hay'',
        u ''tiene'', u ''tengo'', u ''existe'']]"

text \<open>\<^verbatim>\<open>_match\<close>: some pattern of the table is found in the text.\<close>

definition matches :: "str \<Rightarrow> rx list \<Rightarrow> bool" where
  "matches text patterns \<longleftrightarrow> list_ex (\<lambda>p. re_search p text \<noteq> None) patterns"

text \<open>\<^verbatim>\<open>any(f"{i}." in content for i in range(1, n))\<close>\<close>

definition has_numbered_line :: "str \<Rightarrow> nat \<Rightarrow> bool" where
  "has_numbered_line c n \<longleftrightarrow> list_ex (\<lambda>i. contains c (show_nat i @ u ''.'')) [1 ..< n]"

text \<open>The loop of \<^verbatim>\<open>_get_conversation_context\<close> over the last four messages, newest first.\<close>

fun infer_context :: "ConversationMessage list \<Rightarrow> str option" where
  "infer_context [] = None"
| "infer_context (msg # msgs) =
     (if role msg = u ''assistant'' then
        (let c = lower (content msg) in
         if contains c (u ''tus productos'')
            \<or> (contains (content msg) [128230] \<and> has_numbered_line (content msg) 16)
         then Some (u ''products'')
         else if (contains c (u ''historial'') \<or> contains c ([250] @ u ''ltimas emisiones''))
                 \<and> has_numbered_line (content msg) 11
         then Some (u ''history'')
         else if contains c (u ''emisiones de hoy'') then Some (u ''today_emissions'')
         else if contains c (u ''resultados para'') then Some (u ''search_results'')
         else if contains c (u ''producto #'') \<and> contains c ([191] @ u ''deseas emitir'')
         then Some (u ''product_detail'')
         else infer_context msgs)
      else infer_context msgs)"

definition get_conversation_context :: "UserSession \<Rightarrow> str option" where
  "get_conversation_context s =
     (if truthy (conversation_context s) then conversation_context s
      else if messages s = [] then None
      else infer_context (rev (drop (length (messages s) - 4) (messages s))))"

definition has_active_emission :: "UserSession \<Rightarrow> bool" where
  "has_active_emission s \<longleftrightarrow>
     truthy (document_type (emission_data s)) \<or> truthy (id_number (emission_data s))
     \<or> items (emission_data s) \<noteq> []"

definition rx_one_or_two_digits :: rx where
  "rx_one_or_two_digits = seqs [Bol, Rep digit 1 (Some 2) True, Eol]"

text \<open>\<^verbatim>\<open>\d+\s+\w+\s+(a|@|por)\s+\d+\<close>\<close>

definition rx_priced_phrase :: rx where
  "rx_priced_phrase = seqs [many1 digit, many1 space, many1 (Atom is_word), many1 space,
     alts [sym 97, sym 64, lit (u ''por'')], many1 space, many1 digit]"

text \<open>\<^verbatim>\<open>\d+|ultima|ultimo\<close>, the first word with an acute accent on its u.\<close>

definition rx_number_or_last :: rx where
  "rx_number_or_last = alts [many1 digit, lit ([250] @ u ''ltima''), lit (u ''ultimo'')]"

text \<open>
  \<^verbatim>\<open>classify\<close>. The confidence, a cosmetic score, is given in hundredths. The rules are tried
  in the order of the source; the first that applies returns.
\<close>

definition classify :: "str \<Rightarrow> UserSession \<Rightarrow> IntentType \<times> nat" where
  "classify message s =
     (let text = strip message;
          text_lower = lower text;
          last_context = get_conversation_context s
      in
      if last_context = Some (u ''product_detail'') \<and> matches text AFFIRMATIVE
      then (QUERY_PRODUCTS, 95)
      else if re_match rx_one_or_two_digits text \<noteq> None
              \<and> last_context \<in> set [Some (u ''history''), Some (u ''products''),
                    Some (u ''search_results''), Some (u ''today_emissions'')]
      then (if last_context = Some (u ''products'') \<or> last_context = Some (u ''search_results'')
            then (QUERY_PRODUCTS, 95) else (QUERY_HISTORY, 95))
      else if last_context = Some (u ''products'')
              \<and> (matches text PRODUCT_SEARCH \<or> length text > 2)
              \<and> \<not> matches text EMISSION \<and> \<not> matches text HISTORY
      then (QUERY_PRODUCTS, 90)
      else if awaiting_confirmation s \<and> matches text AFFIRMATIVE then (CONFIRMATION, 95)
      else if awaiting_confirmation s \<and> matches text NEGATIVE then (CANCEL, 95)
      else if has_active_emission s \<and> matches text NEGATIVE \<and> length text < 15 then (CANCEL, 90)
      else if has_active_emission s
              \<and> (re_search rx_dni text \<noteq> None \<or> re_search rx_ruc text \<noteq> None)
      then (EMIT_INVOICE, 85)
      else if has_active_emission s \<and> re_search rx_priced_phrase text_lower \<noteq> None
      then (EMIT_INVOICE, 85)
      else if matches text HISTORY then (QUERY_HISTORY, 90)
      else if contains text_lower (u ''detalle'') \<and> re_search rx_number_or_last text_lower \<noteq> None
      then (QUERY_HISTORY, 90)
      else if (matches text GENERAL_QUESTIONS \<or> (63 \<in> set text \<and> length text > 10))
              \<and> \<not> matches text EMISSION
      then (GENERAL_QUESTION, 90)
      else if length text < 25 \<and> matches text GREETING_PATTERNS then (GREETING, 90)
      else if matches text PRODUCTS then (QUERY_PRODUCTS, 90)
      else if matches text PRODUCT_SEARCH \<and> contains text_lower (u ''producto'')
      then (QUERY_PRODUCTS, 85)
      else if matches text EMISSION then (EMIT_INVOICE, 85)
      else if (re_search rx_dni text \<noteq> None \<or> re_search rx_ruc text \<noteq> None)
              \<and> (has_active_emission s \<or> contains text_lower (u ''factura'')
                   \<or> contains text_lower (u ''boleta''))
      then (EMIT_INVOICE, 75)
      else if matches text CLIENTS then (QUERY_CLIENTS, 90)
      else if last_context = Some (u ''products'') \<and> \<not> matches text EMISSION
      then (QUERY_PRODUCTS, 70)
      else if last_context = Some (u ''history'') \<and> \<not> matches text EMISSION
      then (QUERY_HISTORY, 70)
      else if 63 \<in> set text then (GENERAL_QUESTION, 60)
      else (UNKNOWN, 50))"

section \<open>The emission agent: one turn of the dialogue (\<^verbatim>\<open>process_message\<close>)\<close>

text \<open>
  \<^verbatim>\<open>re.sub\<close> with a replacement computed from the groups: the matches from left to right,
  each search starting where the previous match ended. The pattern it is used with does
  not match the empty text.
\<close>

function sub_from :: "rx \<Rightarrow> (captures \<Rightarrow> str) \<Rightarrow> nat option \<Rightarrow> str \<Rightarrow> str" where
  "sub_from r repl pv s =
     (case search_from r pv s of
        None \<Rightarrow> s
      | Some (start, (pv', rest', caps)) \<Rightarrow>
          take (length s - length start) s @ repl caps
          @ (if length rest' < length s then sub_from r repl pv' rest' else rest'))"
  by pat_completeness auto
termination
  by (relation "measure (\<lambda>(r, repl, pv, s). length s)") auto

definition re_sub :: "rx \<Rightarrow> (captures \<Rightarrow> str) \<Rightarrow> str \<Rightarrow> str" where
  "re_sub r repl s = sub_from r repl None s"

text \<open>\<^verbatim>\<open>_is_cancellation\<close>\<close>

definition cancellation_words :: "str list" where
  "cancellation_words =
     [u ''cancelar'', u ''cancela'', u ''cancelalo'', u ''canc'' @ [233] @ u ''lalo'',
      u ''no quiero'', u ''no deseo'', u ''olvida'', u ''olvidalo'', u ''olv'' @ [237] @ u ''dalo'',
      u ''salir'', u ''sal'', u ''detener'', u ''parar'', u ''para'',
      u ''dejalo'', u ''d'' @ [233] @ u ''jalo'', u ''ya no'', u ''mejor no'',
      u ''no gracias'', u ''nada'', u ''ninguno'']"

definition is_cancellation :: "str \<Rightarrow> bool" where
  "is_cancellation msg_lower \<longleftrightarrow>
     list_ex (\<lambda>word. msg_lower = word \<or> startswith msg_lower (word @ u '' '')
                \<or> startswith msg_lower (word @ u '',''))
       cancellation_words
     \<or> list_ex (contains msg_lower)
          [u ''cancelar'', u ''cancela'', u ''no quiero'', u ''olvida'', u ''salir'']"

definition cancelled_reply :: str where
  "cancelled_reply =
     [10060] @ u '' Operaci'' @ [243] @ u ''n cancelada.'' @ [10, 10, 191] @ u ''Qu'' @ [233]
     @ u '' m'' @ [225] @ u ''s necesitas?'' @ [10, 128196] @ u '' Factura | '' @ [129534]
     @ u '' Boleta | '' @ [128202] @ u '' Historial''"

text \<open>
  \<^verbatim>\<open>_extract_document_number\<close>. The white space between two digits is removed first, with
  the pattern \<^verbatim>\<open>(\d)\s+(?=\d)\<close>; the two patterns that follow are those of
  \<^verbatim>\<open>_extract_from_conversation\<close>.
\<close>

definition rx_digit_gap :: rx where
  "rx_digit_gap = seqs [Grp 1 digit, many1 space, Ahead digit]"

definition extract_document_number :: "str \<Rightarrow> (str \<times> str) option" where
  "extract_document_number message =
     (let cleaned = re_sub rx_digit_gap (\<lambda>caps. grp caps 1) message
      in case re_search rx_ruc cleaned of
           Some caps \<Rightarrow> Some (u ''6'', grp caps 1)
         | None \<Rightarrow>
             (case re_search rx_dni cleaned of
                Some caps \<Rightarrow>
                  if int_of_digits (grp caps 1) \<ge> 1000000 then Some (u ''1'', grp caps 1) else None
              | None \<Rightarrow> None))"

text \<open>
  \<^verbatim>\<open>_handle_client_reconfirmation\<close>; \<open>r\<close> is what the request of \<^verbatim>\<open>check_client\<close> yields when
  the new document is validated.
\<close>

definition handle_client_reconfirmation ::
  "float_text \<Rightarrow> request_result \<Rightarrow> str \<Rightarrow> UserSession \<Rightarrow> str \<times> UserSession \<times> tinred_call list" where
  "handle_client_reconfirmation fl r message s =
     (let msg_lower = strip (lower message) in
      if is_cancellation msg_lower then (cancelled_reply, reset_emission s, [])
      else
        (case extract_document_number message of
           Some (new_id_type, new_id_number) \<Rightarrow>
             validate_and_continue fl r
               (s \<lparr> emission_data := (emission_data s)
                       \<lparr> id_type := Some new_id_type, id_number := Some new_id_number,
                         client_validated := False, client_name := None \<rparr>,
                     awaiting_client_reconfirmation := False \<rparr>)
         | None \<Rightarrow>
             (u ''No pude identificar un documento v'' @ [225] @ u ''lido.'' @ [10, 10, 128221]
              @ u '' Ingresa:'' @ [10, 8226] @ u '' DNI: 8 d'' @ [237] @ u ''gitos (ej: 12345678)''
              @ [10, 8226] @ u '' RUC: 11 d'' @ [237] @ u ''gitos (ej: 20161541991)'' @ [10, 10]
              @ u ''O escribe '' @ [34] @ u ''cancelar'' @ [34] @ u '' para salir.'', s, [])))"

text \<open>\<^verbatim>\<open>_extract_price\<close>, with the pattern \<^verbatim>\<open>(\d+(?:[.,]\d{1,2})?)\<close>.\<close>

definition rx_price :: rx where
  "rx_price = Grp 1 (seqs [many1 digit,
     optional (seqs [Atom (\<lambda>c. c = 46 \<or> c = 44), Rep digit 1 (Some 2) True])])"

definition extract_price :: "float_text \<Rightarrow> str \<Rightarrow> str option" where
  "extract_price fl message =
     (case re_search rx_price message of
        Some caps \<Rightarrow> Some (fmt2 fl (replace (grp caps 1) (u '','') (u ''.'')))
      | None \<Rightarrow> None)"

text \<open>\<^verbatim>\<open>_is_initial_request\<close> and \<^verbatim>\<open>_get_initial_instructions\<close>\<close>

definition is_initial_request :: "str \<Rightarrow> Extracted \<Rightarrow> EmissionData \<Rightarrow> bool" where
  "is_initial_request message extracted e \<longleftrightarrow>
     (let msg_lower = strip (lower message);
          is_initial = list_ex (\<lambda>p. msg_lower = p \<or> startswith msg_lower p)
                         [u ''factura'', u ''boleta'', u ''emitir factura'', u ''emitir boleta''];
          no_extra = (\<not> truthy (x_id_number extracted) \<and> x_items extracted = []);
          no_prev = (\<not> truthy (id_number e) \<and> items e = [])
      in is_initial \<and> no_extra \<and> no_prev)"

definition get_initial_instructions :: "str option \<Rightarrow> str" where
  "get_initial_instructions doc =
     (if doc = Some (u ''01'')
      then [128196] @ u '' '' @ [161] @ u ''Perfecto! Vamos con la Factura.'' @ [10, 10]
           @ u ''Primero necesito validar al cliente.'' @ [10, 10] @ u ''1'' @ [65039, 8419]
           @ u '' Dame el RUC (11 d'' @ [237]
           @ u ''gitos) para verificar que existe en el sistema'' @ [10] @ u ''2'' @ [65039, 8419]
           @ u '' Luego me indicas los productos con sus precios'' @ [10, 10, 128161]
           @ u '' Puedes enviarme todo junto si lo prefieres:'' @ [10, 34]
           @ u ''RUC 20161541991, 3 laptops a 2500'' @ [34, 10, 10, 191] @ u ''Cu'' @ [225]
           @ u ''l es el RUC del cliente?''
      else [129534] @ u '' '' @ [161] @ u ''Perfecto! Vamos con la Boleta.'' @ [10, 10]
           @ u ''Primero necesito validar al cliente.'' @ [10, 10] @ u ''1'' @ [65039, 8419]
           @ u '' Dame el DNI (8 d'' @ [237] @ u ''gitos) o RUC para verificar que existe'' @ [10]
           @ u ''2'' @ [65039, 8419] @ u '' Luego me indicas los productos con sus precios''
           @ [10, 10, 128161] @ u '' Puedes enviarme todo junto si lo prefieres:'' @ [10, 34]
           @ u ''DNI 12345678, 2 camisas a 50'' @ [34, 10, 10, 191] @ u ''Cu'' @ [225]
           @ u ''l es el documento del cliente?'')"

text \<open>
  The block of \<^verbatim>\<open>process_message\<close> that gives the pending items the price of the
  utterance (lines 88 to 100). The entries of \<^verbatim>\<open>pending_items\<close> hold strings.
\<close>

definition price_pending_items :: "float_text \<Rightarrow> str \<Rightarrow> UserSession \<Rightarrow> UserSession" where
  "price_pending_items fl message s =
     (if pending_items s \<noteq> []
      then (case extract_price fl message of
              Some price \<Rightarrow>
                if price \<noteq> []
                then s \<lparr> emission_data := (emission_data s)
                            \<lparr> items := items (emission_data s)
                                 @ map (\<lambda>pending. \<lparr> cantidad = pend_cantidad pending,
                                                     descripcion = pend_descripcion pending,
                                                     precio = price \<rparr>)
                                       (pending_items s) \<rparr>,
                          pending_items := [] \<rparr>
                else s
            | None \<Rightarrow> s)
      else s)"

text \<open>
  \<^verbatim>\<open>process_message\<close> from the extraction on (lines 72 to 135): the data of the utterance
  are merged into the session, then the reply is chosen.
\<close>

definition process_message_data ::
  "float_text \<Rightarrow> request_result \<Rightarrow> str \<Rightarrow> UserSession \<Rightarrow> str \<times> UserSession \<times> tinred_call list" where
  "process_message_data fl r message s0 =
     (let extracted = extract_all message s0;
          s1 = update_session s0 extracted;
          items_sin_precio = x_items_sin_precio extracted
      in if items_sin_precio \<noteq> [] \<and> x_items extracted = []
         then ([128221] @ u '' '' @ pend_cantidad (hd items_sin_precio) @ u '' ''
               @ pend_descripcion (hd items_sin_precio) @ [10, 10, 191] @ u ''Precio unitario?'',
               s1 \<lparr> pending_items := items_sin_precio \<rparr>, [])
         else
           (let s = price_pending_items fl message s1;
                e = emission_data s;
                missing = get_missing_fields e
            in if is_initial_request message extracted e
               then (get_initial_instructions (document_type e), s, [])
               else if truthy (id_number e) \<and> \<not> client_validated e \<and> items e \<noteq> []
               then validate_and_continue fl r s
               else if truthy (id_number e) \<and> \<not> client_validated e
                       \<and> (missing = [] \<or> missing = [u ''productos''])
               then validate_and_continue fl r s
               else if missing = []
               then (if client_validated e
                     then (case generate_summary fl s of (txt, s') \<Rightarrow> (txt, s', []))
                     else validate_and_continue fl r s)
               else if \<not> truthy (x_id_number extracted) \<and> x_items extracted = []
                       \<and> items_sin_precio = [] \<and> u ''identificacion_cliente'' \<in> set missing
               then (u ''Escribe el DNI (8 d'' @ [237] @ u ''gitos) o RUC (11 d'' @ [237]
                     @ u ''gitos):'', s, [])
               else if \<not> truthy (x_id_number extracted) \<and> x_items extracted = []
                       \<and> items_sin_precio = [] \<and> u ''productos'' \<in> set missing
               then ([191] @ u ''Qu'' @ [233] @ u '' productos?'' @ [10, 128221]
                     @ u '' Ej: 2 laptops a 2500'', s, [])
               else (case request_data fl missing s of (txt, s') \<Rightarrow> (txt, s', []))))"

text \<open>
  \<^verbatim>\<open>process_message\<close>; \<open>r\<close> is what the request of \<^verbatim>\<open>check_client\<close> yields, if the turn
  makes one. The result is the reply, the session and the calls made on the client.
\<close>

definition process_message ::
  "float_text \<Rightarrow> request_result \<Rightarrow> str \<Rightarrow> UserSession \<Rightarrow> str \<times> UserSession \<times> tinred_call list" where
  "process_message fl r message s0 =
     (let msg_lower = strip (lower message) in
      if is_cancellation msg_lower then (cancelled_reply, reset_emission s0, [])
      else if awaiting_client_reconfirmation s0 then handle_client_reconfirmation fl r message s0
      else
        (let confirms = (msg_lower \<in> set [u ''si'', u ''s'' @ [237], u ''ok'', u ''dale'',
                                            u ''confirmo'', u ''claro'']);
             s = (if confirms \<and> \<not> has_complete_data (emission_data s0)
                  then extract_from_conversation fl s0 else s0)
         in if confirms \<and> get_missing_fields (emission_data s) = []
            then (if \<not> client_validated (emission_data s) then validate_and_continue fl r s
                  else (case generate_summary fl s of (txt, s') \<Rightarrow> (txt, s', [])))
            else if msg_lower \<in> set [u ''ruc'', u ''con ruc'', u ''es ruc'']
            then (u ''Dame el RUC (11 d'' @ [237] @ u ''gitos).'' @ [10]
                  @ u ''Ejemplo: 20161541991'', s, [])
            else if msg_lower \<in> set [u ''dni'', u ''con dni'', u ''es dni'']
            then (u ''Dame el DNI (8 d'' @ [237] @ u ''gitos).'' @ [10] @ u ''Ejemplo: 12345678'',
                  s, [])
            else process_message_data fl r message s))"

section \<open>The sessions a conversation can reach\<close>

text \<open>
  A session starts as \<^verbatim>\<open>UserSession(phone=...)\<close> (session manager, \<^verbatim>\<open>get_session\<close>). The
  emission data are written by \<^verbatim>\<open>process_message\<close>, by \<^verbatim>\<open>execute_emission\<close> and by
  \<^verbatim>\<open>reset_emission\<close> only; everything else the orchestrator, the conversation agent and the
  session manager do to a session (messages, context, flags, pending items, emission
  history) leaves the emission data as they are. The utterances, the answers of the
  issuing service and the order of the steps are arbitrary.
\<close>

inductive reachable :: "UserSession \<Rightarrow> bool" where
  new_session: "reachable (UserSession_init p now)"
| message_processed:
    "reachable s \<Longrightarrow> process_message fl r message s = (reply, s', calls) \<Longrightarrow> reachable s'"
| emission_executed:
    "reachable s \<Longrightarrow> execute_emission fl rc re parse now s = (reply, s', calls) \<Longrightarrow> reachable s'"
| emission_reset: "reachable s \<Longrightarrow> reachable (reset_emission s)"
| other_fields: "reachable s \<Longrightarrow> emission_data s' = emission_data s \<Longrightarrow> reachable s'"

text \<open>
  What the writes of the emission data keep true: a validated client has an ID number,
  an ID number has an ID type, and a client name belongs to a validated client.
\<close>

definition validation_consistent :: "EmissionData \<Rightarrow> bool" where
  "validation_consistent e \<longleftrightarrow>
     (client_validated e \<longrightarrow> truthy (id_number e))
     \<and> (truthy (id_number e) \<longrightarrow> truthy (id_type e))
     \<and> (client_name e \<noteq> None \<longrightarrow> client_validated e)"

text \<open>
  The flags after a turn do not come from before it: they are cleared, or they were set in
  this turn by the answer of \<^verbatim>\<open>check_client\<close> (request result \<open>r\<close>) for the ID number the
  session now holds.
\<close>

definition validation_fresh ::
  "request_result \<Rightarrow> UserSession \<Rightarrow> UserSession \<Rightarrow> tinred_call list \<Rightarrow> bool" where
  "validation_fresh r s s' calls \<longleftrightarrow>
     (\<not> client_validated (emission_data s') \<and> client_name (emission_data s') = None)
     \<or> (fst (check_client r) \<and> client_validated (emission_data s')
         \<and> client_name (emission_data s') = Some (snd (check_client r))
         \<and> calls = [Check_client (phone s) (opt_text (id_number (emission_data s')))])"


text \<open>The slots \<^verbatim>\<open>execute_emission\<close> requires before it calls \<^verbatim>\<open>emit_invoice\<close>.\<close>

definition ready :: "EmissionData \<Rightarrow> bool" where
  "ready e \<longleftrightarrow> truthy (document_type e) \<and> truthy (id_type e) \<and> truthy (id_number e)
     \<and> items e \<noteq> [] \<and> client_validated e"

text \<open>Timeout, refused connection, or a status 5xx.\<close>

fun transport_error :: "http_outcome \<Rightarrow> bool" where
  "transport_error Timeout = True"
| "transport_error ConnectionError = True"
| "transport_error (Response status body) = (500 \<le> status \<and> status < 600)"
| "transport_error (OtherFailure m) = False"

section \<open>Example values\<close>

text \<open>
  A float rendering for the examples below, whose items have quantity 1 and a price
  already written with two decimals, and a session of an authenticated caller.
\<close>

definition plain_float_text :: float_text where
  "plain_float_text = \<lparr> fmt2 = (\<lambda>s. s), subtotal2 = precio, total2 = (\<lambda>l. concat (map precio l)),
     quantity_text = Some \<rparr>"

definition libro :: InvoiceItem where
  "libro = \<lparr> cantidad = u ''1'', descripcion = u ''libro'', precio = u ''40.00'' \<rparr>"

definition caller :: UserSession where
  "caller = (UserSession_init (u ''51999888777'') 0)
     \<lparr> user_name := Some (u ''Ana''),
       client_data := Some \<lparr> IdEmpresa = u ''7'', IdEstablecimiento = u ''0001'', IdUsuario = 3,
                               Nombre = Some (u ''Ana'') \<rparr>,
       authenticated := True, terms_accepted := True \<rparr>"


text \<open>A complete, validated receipt.\<close>

definition receipt_ready :: UserSession where
  "receipt_ready = caller \<lparr> emission_data := \<lparr> document_type = Some (u ''03''),
     currency = Some (u ''PEN''), id_type = Some (u ''1''), id_number = Some (u ''12345678''),
     items = [libro], client_validated = True, client_name = Some (u ''LUIS'') \<rparr> \<rparr>"

text \<open>A DNI that has not been validated yet.\<close>

definition dni_unchecked :: UserSession where
  "dni_unchecked = caller \<lparr> emission_data := \<lparr> document_type = Some (u ''03''),
     currency = Some (u ''PEN''), id_type = Some (u ''1''), id_number = Some (u ''12345678''),
     items = [libro], client_validated = False, client_name = None \<rparr> \<rparr>"

definition rejected :: InvoiceResponse where
  "rejected = \<lparr> success = u ''FALSE'', estado = [], serie = [], numero = [], resp_id = 0,
     mensaje = u ''RUC no habilitado'', pdf = [] \<rparr>"

text \<open>Two answers of the issuing service to \<^verbatim>\<open>checkclient\<close>: a client that is found, and none.\<close>

definition found_juan :: request_result where
  "found_juan = Returned (JObj [(u ''01'', JStr (u ''JUAN PEREZ''))])"

definition not_found :: request_result where
  "not_found = Returned (JObj [(u ''00'', JStr (u ''Cliente no encontrado''))])"

text \<open>The session after the caller's first utterance, a DNI that the service finds.\<close>

definition juan_checked :: UserSession where
  "juan_checked = fst (snd (process_message plain_float_text found_juan (u ''12345678'') caller))"

section \<open>Properties\<close>

subsection \<open>Helper facts\<close>

lemma get_missing_fields_Nil:
  "get_missing_fields e = [] \<longleftrightarrow>
     truthy (document_type e) \<and> truthy (id_type e) \<and> truthy (id_number e) \<and> items e \<noteq> []"
  by (simp add: get_missing_fields_def)

lemma transport_error_Raised: "transport_error h \<Longrightarrow> \<exists>m. request h = Raised m"
  by (cases h) (auto simp: request_def split: option.splits json.splits)

lemma check_client_Raised:
  "check_client (Raised m) = (False, u ''Error de conexi'' @ [243] @ u ''n: '' @ m)"
  by (simp add: check_client_def check_client_body_def)

lemma validate_and_continue_not_found:
  "truthy (id_number (emission_data s)) \<Longrightarrow> fst (check_client r) = False \<Longrightarrow>
   validate_and_continue fl r s =
     (not_found_reply fl (emission_data s), s \<lparr> awaiting_client_reconfirmation := True \<rparr>,
      [Check_client (phone s) (opt_text (id_number (emission_data s)))])"
  by (cases "check_client r") (simp add: validate_and_continue_def Let_def)


lemma extract_from_conversation_fields:
  "extract_from_conversation fl s = s \<lparr> emission_data := emission_data (extract_from_conversation fl s) \<rparr>"
  by (simp add: extract_from_conversation_def Let_def)

lemma backfilled_fields:
  "backfilled fl s = s \<lparr> emission_data := emission_data (backfilled fl s) \<rparr>"
  unfolding backfilled_def using extract_from_conversation_fields [of fl s] by simp

lemma backfilled_flags:
  "awaiting_confirmation (backfilled fl s) = awaiting_confirmation s"
  "awaiting_client_reconfirmation (backfilled fl s) = awaiting_client_reconfirmation s"
  "user_context (backfilled fl s) = user_context s"
  "conversation_context (backfilled fl s) = conversation_context s"
  "session_emissions (backfilled fl s) = session_emissions s"
  "client_data (backfilled fl s) = client_data s"
  by (simp_all add: backfilled_def extract_from_conversation_def Let_def)



subsection \<open>The claims\<close>




text \<open>
  C2 (as amended). When the issuance response does not carry \<open>TRUE\<close> in \<open>success\<close>, compared
  in upper case, \<open>execute_emission\<close> replies with the warning sign, \<open>Error:\<close> and the
  message of the response, and resets nothing: the session is the one it decided on, so
  the emission data (as completed from the conversation) and both \<open>awaiting\<close> flags keep
  their values.
\<close>

theorem execute_emission_rejected:
  assumes "ready (emission_data (backfilled fl s))"
    and "emit_invoice fl (client_data s) (items (emission_data (backfilled fl s))) re parse
          = Emit_response response"
    and "upper (success response) \<noteq> u ''TRUE''"
  shows "fst (execute_emission fl rc re parse now s) = [9888, 65039] @ u '' Error: '' @ mensaje response
    \<and> fst (snd (execute_emission fl rc re parse now s)) = backfilled fl s
    \<and> awaiting_confirmation (fst (snd (execute_emission fl rc re parse now s))) = awaiting_confirmation s
    \<and> awaiting_client_reconfirmation (fst (snd (execute_emission fl rc re parse now s)))
        = awaiting_client_reconfirmation s"
  using assms
  by (simp add: execute_emission_def Let_def ready_def get_missing_fields_Nil backfilled_flags
      is_successful_def)

text \<open>
  The claim as stated fails: after a rejected issuance the emission data is not the
  initial value.
\<close>

theorem execute_emission_rejected_counterexample:
  "emission_data (fst (snd (execute_emission plain_float_text (Raised []) (Returned (JObj []))
      (\<lambda>b. Some rejected) 0 receipt_ready))) \<noteq> EmissionData_init"
  by (simp add: receipt_ready_def caller_def UserSession_init_def execute_emission_def
      backfilled_def has_complete_data_def get_missing_fields_def emit_invoice_def
      plain_float_text_def libro_def
      is_successful_def rejected_def upper_def upper_cp_def EmissionData_init_def Let_def u_def)

theorem execute_emission_rejected_witness:
  "ready (emission_data (backfilled plain_float_text receipt_ready))
   \<and> emit_invoice plain_float_text (client_data receipt_ready)
         (items (emission_data (backfilled plain_float_text receipt_ready)))
         (Returned (JObj [])) (\<lambda>b. Some rejected)
       = Emit_response rejected
   \<and> upper (success rejected) \<noteq> u ''TRUE''
   \<and> fst (execute_emission plain_float_text (Raised []) (Returned (JObj [])) (\<lambda>b. Some rejected) 0
        receipt_ready) = [9888, 65039] @ u '' Error: RUC no habilitado''
   \<and> fst (snd (execute_emission plain_float_text (Raised []) (Returned (JObj []))
        (\<lambda>b. Some rejected) 0 receipt_ready)) = receipt_ready"
proof -
  have a: "ready (emission_data (backfilled plain_float_text receipt_ready))"
    by (simp add: receipt_ready_def caller_def UserSession_init_def backfilled_def
        has_complete_data_def ready_def libro_def u_def)
  have b: "emit_invoice plain_float_text (client_data receipt_ready)
         (items (emission_data (backfilled plain_float_text receipt_ready)))
         (Returned (JObj [])) (\<lambda>b. Some rejected)
       = Emit_response rejected"
    by (simp add: receipt_ready_def caller_def UserSession_init_def emit_invoice_def
        backfilled_def has_complete_data_def plain_float_text_def libro_def u_def)
  have c: "upper (success rejected) \<noteq> u ''TRUE''"
    by (simp add: rejected_def upper_def upper_cp_def u_def)
  have d: "backfilled plain_float_text receipt_ready = receipt_ready"
    by (simp add: receipt_ready_def caller_def UserSession_init_def backfilled_def
        has_complete_data_def libro_def u_def)
  have e: "mensaje rejected = u ''RUC no habilitado''"
    by (simp add: rejected_def)
  show ?thesis
    using execute_emission_rejected [OF a b c, of "Raised []" 0] a b c d e
    by (simp add: u_def)
qed

text \<open>
  C3 does not hold of the code. A transport error of the client validation is not
  surfaced and does not leave the session as it was: when the request times out,
  \<open>check_client\<close> returns \<open>False\<close> with a connection-error message that is only logged, and
  \<open>_validate_and_continue\<close> answers with the prompt for a document that was not found and
  sets \<open>awaiting_client_reconfirmation\<close>, which was not set before. The handler's own comment
  (tinred_client.py, line 112) says that a connection error should let the user continue
  with a warning.
\<close>

theorem validate_and_continue_on_timeout:
  "transport_error Timeout
   \<and> check_client (request Timeout) = (False, u ''Error de conexi'' @ [243] @ u ''n: Timeout'')
   \<and> validate_and_continue plain_float_text (request Timeout) dni_unchecked
       = (not_found_reply plain_float_text (emission_data dni_unchecked),
          dni_unchecked \<lparr> awaiting_client_reconfirmation := True \<rparr>,
          [Check_client (u ''51999888777'') (u ''12345678'')])
   \<and> \<not> awaiting_client_reconfirmation dni_unchecked
   \<and> not_found_reply plain_float_text (emission_data dni_unchecked)
       = [9888, 65039] @ u '' El documento 12345678 no fue encontrado en el sistema.'' @ [10]
         @ [10, 128230] @ u '' Ya tengo registrados tus productos:'' @ [10]
         @ u ''  '' @ [8226] @ u '' 1x libro @ S/40.00'' @ [10]
         @ [10] @ u ''Por favor confirma el n'' @ [250]
         @ u ''mero de documento correcto para continuar.'' @ [10, 128161]
         @ u '' Escribe el DNI (8 d'' @ [237] @ u ''gitos) o RUC (11 d'' @ [237] @ u ''gitos)''"
proof -
  have r: "request Timeout = Raised (u ''Timeout'')"
    by (simp add: request_def)
  have c: "check_client (request Timeout) = (False, u ''Error de conexi'' @ [243] @ u ''n: Timeout'')"
    by (simp add: r check_client_Raised u_def)
  have i: "truthy (id_number (emission_data dni_unchecked))"
    by (simp add: dni_unchecked_def u_def)
  have p: "phone dni_unchecked = u ''51999888777''"
    "opt_text (id_number (emission_data dni_unchecked)) = u ''12345678''"
    by (simp_all add: dni_unchecked_def caller_def UserSession_init_def)
  have v: "validate_and_continue plain_float_text (request Timeout) dni_unchecked
       = (not_found_reply plain_float_text (emission_data dni_unchecked),
          dni_unchecked \<lparr> awaiting_client_reconfirmation := True \<rparr>,
          [Check_client (u ''51999888777'') (u ''12345678'')])"
    using validate_and_continue_not_found [OF i, of "request Timeout" plain_float_text] c p
    by simp
  have a: "\<not> awaiting_client_reconfirmation dni_unchecked"
    by (simp add: dni_unchecked_def caller_def UserSession_init_def)
  have t: "not_found_reply plain_float_text (emission_data dni_unchecked)
       = [9888, 65039] @ u '' El documento 12345678 no fue encontrado en el sistema.'' @ [10]
         @ [10, 128230] @ u '' Ya tengo registrados tus productos:'' @ [10]
         @ u ''  '' @ [8226] @ u '' 1x libro @ S/40.00'' @ [10]
         @ [10] @ u ''Por favor confirma el n'' @ [250]
         @ u ''mero de documento correcto para continuar.'' @ [10, 128161]
         @ u '' Escribe el DNI (8 d'' @ [237] @ u ''gitos) o RUC (11 d'' @ [237] @ u ''gitos)''"
    by (simp add: not_found_reply_def not_found_line_def dni_unchecked_def libro_def
        plain_float_text_def u_def)
  from c v a t show ?thesis by simp
qed

text \<open>
  C10. \<open>check_client\<close> returns a pair on every input: it returns what the body of its
  \<^verbatim>\<open>try\<close> returns, and whatever that body raises it turns into \<open>False\<close> with a message, the
  connection-error message for a failed request and the unexpected-error message
  otherwise. In particular every transport error of the request comes back as \<open>False\<close> with
  the connection-error message. \<open>_validate_and_continue\<close> reads only the flag of a negative
  answer, so with an ID number in the session every negative answer, a failed request as
  much as the answer \<^verbatim>\<open>{"00": ...}\<close> of a client that was not found, takes the
  reconfirmation branch: the reply is the not-found prompt, \<open>awaiting_client_reconfirmation\<close>
  is set and nothing else in the session changes.
\<close>

theorem check_client_never_raises:
  "((\<exists>p. check_client_body r = Inr p \<and> check_client r = p)
      \<or> (\<exists>m. check_client_body r = Inl (TinRedAPIError m)
            \<and> check_client r = (False, u ''Error de conexi'' @ [243] @ u ''n: '' @ m))
      \<or> (\<exists>e. check_client_body r = Inl e \<and> (e = TypeError \<or> e = AttributeError)
            \<and> check_client r = (False, u ''Error inesperado: '' @ exn_text e)))
   \<and> (transport_error h \<longrightarrow>
        (\<exists>m. request h = Raised m
           \<and> check_client (request h) = (False, u ''Error de conexi'' @ [243] @ u ''n: '' @ m)))
   \<and> check_client (Returned (JObj [(u ''00'', JStr nf)])) = (False, nf)
   \<and> (fst (check_client r) = False \<and> truthy (id_number (emission_data s)) \<longrightarrow>
        validate_and_continue fl r s =
          (not_found_reply fl (emission_data s), s \<lparr> awaiting_client_reconfirmation := True \<rparr>,
           [Check_client (phone s) (opt_text (id_number (emission_data s)))]))"
proof -
  have 1: "(\<exists>p. check_client_body r = Inr p \<and> check_client r = p)
      \<or> (\<exists>m. check_client_body r = Inl (TinRedAPIError m)
            \<and> check_client r = (False, u ''Error de conexi'' @ [243] @ u ''n: '' @ m))
      \<or> (\<exists>e. check_client_body r = Inl e \<and> (e = TypeError \<or> e = AttributeError)
            \<and> check_client r = (False, u ''Error inesperado: '' @ exn_text e))"
  proof (cases "check_client_body r")
    case (Inl e)
    then show ?thesis by (cases e) (simp_all add: check_client_def)
  next
    case (Inr p)
    then show ?thesis by (simp add: check_client_def)
  qed
  have 2: "transport_error h \<longrightarrow>
        (\<exists>m. request h = Raised m
           \<and> check_client (request h) = (False, u ''Error de conexi'' @ [243] @ u ''n: '' @ m))"
    using transport_error_Raised [of h] by (auto simp: check_client_Raised)
  have 3: "check_client (Returned (JObj [(u ''00'', JStr nf)])) = (False, nf)"
    by (simp add: check_client_def check_client_body_def u_def)
  have 4: "fst (check_client r) = False \<and> truthy (id_number (emission_data s)) \<longrightarrow>
        validate_and_continue fl r s =
          (not_found_reply fl (emission_data s), s \<lparr> awaiting_client_reconfirmation := True \<rparr>,
           [Check_client (phone s) (opt_text (id_number (emission_data s)))])"
    by (simp add: validate_and_continue_not_found)
  from 1 2 3 4 show ?thesis by blast
qed

theorem check_client_never_raises_witness:
  "check_client_body (request Timeout) = Inl (TinRedAPIError (u ''Timeout''))
   \<and> transport_error Timeout
   \<and> check_client (request Timeout) = (False, u ''Error de conexi'' @ [243] @ u ''n: Timeout'')
   \<and> check_client (Returned (JObj [(u ''00'', JStr (u ''Cliente no encontrado''))]))
       = (False, u ''Cliente no encontrado'')
   \<and> truthy (id_number (emission_data dni_unchecked))
   \<and> validate_and_continue plain_float_text (request Timeout) dni_unchecked
       = (not_found_reply plain_float_text (emission_data dni_unchecked),
          dni_unchecked \<lparr> awaiting_client_reconfirmation := True \<rparr>,
          [Check_client (u ''51999888777'') (u ''12345678'')])
   \<and> validate_and_continue plain_float_text
        (Returned (JObj [(u ''00'', JStr (u ''Cliente no encontrado''))])) dni_unchecked
       = (not_found_reply plain_float_text (emission_data dni_unchecked),
          dni_unchecked \<lparr> awaiting_client_reconfirmation := True \<rparr>,
          [Check_client (u ''51999888777'') (u ''12345678'')])"
proof -
  have r: "request Timeout = Raised (u ''Timeout'')"
    by (simp add: request_def)
  have b: "check_client_body (request Timeout) = Inl (TinRedAPIError (u ''Timeout''))"
    by (simp add: r check_client_body_def)
  have t: "transport_error Timeout" by simp
  have i: "truthy (id_number (emission_data dni_unchecked))"
    by (simp add: dni_unchecked_def u_def)
  have p: "phone dni_unchecked = u ''51999888777''"
    "opt_text (id_number (emission_data dni_unchecked)) = u ''12345678''"
    by (simp_all add: dni_unchecked_def caller_def UserSession_init_def)
  show ?thesis
    using check_client_never_raises [of "request Timeout" Timeout "u ''Cliente no encontrado''"
        dni_unchecked plain_float_text]
      check_client_never_raises [of "Returned (JObj [(u ''00'', JStr (u ''Cliente no encontrado''))])"
        Timeout "u ''Cliente no encontrado''" dni_unchecked plain_float_text]
      r b t i p
    by (auto simp: u_def)
qed

subsection \<open>Facts about the extractor\<close>


















lemma x_id_type_extract_all: "x_id_type (extract_all m s) = map_option fst (extract_id m)"
  by (simp add: extract_all_def Let_def)

subsection \<open>The claims about the extractor\<close>




text \<open>
  C6. When the utterance has neither the word \<^verbatim>\<open>factura\<close> nor the word \<^verbatim>\<open>boleta\<close>: if
  \<open>extract\<close> finds a DNI (ID type 1) the extracted document kind is 03, and if it finds a
  RUC (ID type 6) the document kind stays unset.
\<close>

theorem dni_infers_receipt:
  assumes "\<not> has_document_keyword m"
  shows "(x_id_type (extract_all m s) = Some (u ''1'') \<longrightarrow>
            x_document_type (extract_all m s) = Some (u ''03''))
       \<and> (x_id_type (extract_all m s) = Some (u ''6'') \<longrightarrow>
            x_document_type (extract_all m s) = None)"
  using assms
  by (cases "extract_id m") (auto simp: extract_all_def Let_def has_document_keyword_def u_def)

subsection \<open>Evaluating the patterns\<close>

lemmas rx_eval = u_def is_digit_def is_space_def is_word_def at_boundary_def lower_def lower_cp_def
  upper_def upper_cp_def strip_def re_search_def re_match_def finditer_def lit_def ci_lit_def
  sym_def digit_def space_def many_def many1_def optional_def exactly_def int_of_digits_def
  es_lower_def es_letter_def

lemma no_keyword_12345678: "\<not> has_document_keyword (u ''12345678'')"
  by (simp add: has_document_keyword_def rx_factura_def rx_boleta_def rx_eval)

lemma no_keyword_20161541991: "\<not> has_document_keyword (u ''20161541991'')"
  by (simp add: has_document_keyword_def rx_factura_def rx_boleta_def rx_eval)

lemma extract_id_12345678: "extract_id (u ''12345678'') = Some (u ''1'', u ''12345678'')"
  by (simp add: extract_id_def rx_dni_explicit_def rx_ruc_explicit_def rx_ruc_def rx_dni_loose_def
      rx_eval)

lemma extract_id_20161541991: "extract_id (u ''20161541991'') = Some (u ''6'', u ''20161541991'')"
  by (simp add: extract_id_def rx_dni_explicit_def rx_ruc_explicit_def rx_ruc_def rx_dni_loose_def
      rx_eval)

theorem dni_infers_receipt_witness:
  "\<not> has_document_keyword (u ''12345678'')
   \<and> x_id_type (extract_all (u ''12345678'') caller) = Some (u ''1'')
   \<and> x_document_type (extract_all (u ''12345678'') caller) = Some (u ''03'')
   \<and> \<not> has_document_keyword (u ''20161541991'')
   \<and> x_id_type (extract_all (u ''20161541991'') caller) = Some (u ''6'')
   \<and> x_document_type (extract_all (u ''20161541991'') caller) = None"
  using dni_infers_receipt [OF no_keyword_12345678, of caller]
    dni_infers_receipt [OF no_keyword_20161541991, of caller]
    no_keyword_12345678 no_keyword_20161541991
  by (simp add: x_id_type_extract_all extract_id_12345678 extract_id_20161541991)












subsection \<open>The claim about the classifier\<close>

lemma show_nat_one_digit: "n < 10 \<Longrightarrow> show_nat n = [48 + n]"
  by (simp add: show_nat_def)

lemma show_nat_two_digits:
  assumes "10 \<le> n" and "n \<le> 99"
  shows "show_nat n = [48 + n div 10, 48 + n mod 10]"
proof -
  from assms obtain k where k: "n = Suc k" by (cases n) auto
  from assms have d: "n div 10 < 10" by presburger
  from assms have "show_nat n = show_digits n (n div 10) @ [48 + n mod 10]"
    by (simp add: show_nat_def)
  also have "show_digits n (n div 10) = [48 + n div 10]"
    unfolding k using d k by simp
  finally show ?thesis by simp
qed

lemma one_digit_matches: "is_digit a \<Longrightarrow> re_match rx_one_or_two_digits [a] \<noteq> None"
  by (simp add: re_match_def rx_one_or_two_digits_def digit_def)

lemma two_digits_match:
  "is_digit a \<Longrightarrow> is_digit b \<Longrightarrow> re_match rx_one_or_two_digits [a, b] \<noteq> None"
  by (simp add: re_match_def rx_one_or_two_digits_def digit_def)

lemma digit_not_space: "is_digit a \<Longrightarrow> \<not> is_space a"
  by (auto simp: is_digit_def is_space_def)

lemma small_number_matches:
  assumes "1 \<le> n" and "n \<le> 99"
  shows "re_match rx_one_or_two_digits (show_nat n) \<noteq> None"
proof (cases "n < 10")
  case True
  then have d: "is_digit (48 + n)" by (simp add: is_digit_def)
  with True show ?thesis
    by (simp add: show_nat_one_digit one_digit_matches)
next
  case False
  with assms have s: "show_nat n = [48 + n div 10, 48 + n mod 10]"
    by (simp add: show_nat_two_digits)
  from assms have d: "is_digit (48 + n div 10)" "is_digit (48 + n mod 10)"
    by (simp_all add: is_digit_def)
  then show ?thesis
    by (simp add: s two_digits_match)
qed

lemma classify_number:
  assumes "re_match rx_one_or_two_digits (strip m) \<noteq> None"
    and "get_conversation_context s = Some c"
  shows "(c = u ''products'' \<or> c = u ''search_results'' \<longrightarrow> fst (classify m s) = QUERY_PRODUCTS)
       \<and> (c = u ''history'' \<or> c = u ''today_emissions'' \<longrightarrow> fst (classify m s) = QUERY_HISTORY)"
  using assms by (auto simp: classify_def Let_def u_def)

text \<open>
  C7. Let the utterance be, apart from white space around it, the decimal numeral of an
  integer between 1 and 99, and let the session have a conversation context (the one stored
  in it or, when none is stored, the one \<^verbatim>\<open>_get_conversation_context\<close> infers from the last
  messages). Then \<open>classify\<close> returns \<open>QUERY_PRODUCTS\<close> when the context is \<open>products\<close> or
  \<open>search_results\<close>, and \<open>QUERY_HISTORY\<close> when it is \<open>history\<close> or \<open>today_emissions\<close>, whatever
  else the session holds.
\<close>

theorem bare_number_follows_context:
  assumes "1 \<le> n" and "n \<le> 99" and "strip m = show_nat n"
    and "get_conversation_context s = Some c"
  shows "(c = u ''products'' \<or> c = u ''search_results'' \<longrightarrow> fst (classify m s) = QUERY_PRODUCTS)
       \<and> (c = u ''history'' \<or> c = u ''today_emissions'' \<longrightarrow> fst (classify m s) = QUERY_HISTORY)"
proof -
  from assms(1,2) have "re_match rx_one_or_two_digits (show_nat n) \<noteq> None"
    by (rule small_number_matches)
  with assms(3) have "re_match rx_one_or_two_digits (strip m) \<noteq> None" by simp
  from this assms(4) show ?thesis by (rule classify_number)
qed

theorem bare_number_follows_context_witness:
  "strip (u '' 7'') = show_nat 7
   \<and> get_conversation_context (receipt_ready \<lparr> conversation_context := Some (u ''products'') \<rparr>)
       = Some (u ''products'')
   \<and> fst (classify (u '' 7'') (receipt_ready \<lparr> conversation_context := Some (u ''products'') \<rparr>))
       = QUERY_PRODUCTS
   \<and> strip (u ''42'') = show_nat 42
   \<and> get_conversation_context (receipt_ready \<lparr> conversation_context := Some (u ''history'') \<rparr>)
       = Some (u ''history'')
   \<and> fst (classify (u ''42'') (receipt_ready \<lparr> conversation_context := Some (u ''history'') \<rparr>))
       = QUERY_HISTORY"
proof -
  have a: "(1::nat) \<le> 7" "(7::nat) \<le> 99" "(1::nat) \<le> 42" "(42::nat) \<le> 99" by simp_all
  have c: "get_conversation_context (receipt_ready \<lparr> conversation_context := Some (u ''products'') \<rparr>)
      = Some (u ''products'')"
    "get_conversation_context (receipt_ready \<lparr> conversation_context := Some (u ''history'') \<rparr>)
      = Some (u ''history'')"
    by (simp_all add: get_conversation_context_def u_def)
  have s: "strip (u '' 7'') = show_nat 7" "strip (u ''42'') = show_nat 42"
    by (simp_all add: show_nat_one_digit show_nat_two_digits strip_def is_space_def u_def)
  show ?thesis
    using bare_number_follows_context [OF a(1,2) s(1) c(1)]
      bare_number_follows_context [OF a(3,4) s(2) c(2)] s c
    by simp
qed

subsection \<open>The claim about the validation flags\<close>

lemma reset_consistent: "validation_consistent (reset e)"
  by (simp add: validation_consistent_def reset_def)

lemma update_emission_kept:
  "client_validated (update_emission e x) = client_validated e"
  "client_name (update_emission e x) = client_name e"
  by (simp_all add: update_emission_def Let_def)

lemma update_emission_id_changes:
  "id_number (update_emission e x) \<noteq> id_number e \<Longrightarrow> \<not> truthy (id_type e)"
  by (auto simp: update_emission_def Let_def split: if_splits)

lemma update_emission_consistent:
  "validation_consistent e \<Longrightarrow> validation_consistent (update_emission e x)"
  by (auto simp: validation_consistent_def update_emission_def Let_def)

lemma conversation_step_kept:
  "client_validated (conversation_step fl e msg) = client_validated e"
  "client_name (conversation_step fl e msg) = client_name e"
  by (simp_all add: conversation_step_def Let_def split: option.splits)

lemma conversation_step_id:
  "truthy (id_number e) \<Longrightarrow> id_number (conversation_step fl e msg) = id_number e"
  by (simp add: conversation_step_def Let_def split: option.splits)

lemma conversation_step_consistent:
  "validation_consistent e \<Longrightarrow> validation_consistent (conversation_step fl e msg)"
  by (auto simp: validation_consistent_def conversation_step_def Let_def u_def
      split: option.splits)

lemma conversation_kept:
  "client_validated (foldl (conversation_step fl) e ms) = client_validated e"
  "client_name (foldl (conversation_step fl) e ms) = client_name e"
  by (induction ms arbitrary: e) (simp_all add: conversation_step_kept)

lemma conversation_id:
  "truthy (id_number e) \<Longrightarrow> id_number (foldl (conversation_step fl) e ms) = id_number e"
  by (induction ms arbitrary: e) (simp_all add: conversation_step_id)

lemma conversation_consistent:
  "validation_consistent e \<Longrightarrow> validation_consistent (foldl (conversation_step fl) e ms)"
  by (induction ms arbitrary: e) (simp_all add: conversation_step_consistent)

lemma extract_from_conversation_kept:
  "client_validated (emission_data (extract_from_conversation fl s)) = client_validated (emission_data s)"
  "client_name (emission_data (extract_from_conversation fl s)) = client_name (emission_data s)"
  "phone (extract_from_conversation fl s) = phone s"
  by (simp_all add: extract_from_conversation_def Let_def conversation_kept)

lemma extract_from_conversation_id:
  "truthy (id_number (emission_data s)) \<Longrightarrow>
   id_number (emission_data (extract_from_conversation fl s)) = id_number (emission_data s)"
  by (simp add: extract_from_conversation_def Let_def conversation_id)

lemma extract_from_conversation_consistent:
  assumes "validation_consistent (emission_data s)"
  shows "validation_consistent (emission_data (extract_from_conversation fl s))"
proof -
  let ?e = "foldl (conversation_step fl) (emission_data s)
              (drop (length (messages s) - 10) (messages s))"
  from assms have "validation_consistent ?e" by (rule conversation_consistent)
  then show ?thesis
    by (simp add: extract_from_conversation_def Let_def validation_consistent_def u_def)
qed

lemma backfilled_kept:
  "client_validated (emission_data (backfilled fl s)) = client_validated (emission_data s)"
  "client_name (emission_data (backfilled fl s)) = client_name (emission_data s)"
  "phone (backfilled fl s) = phone s"
  by (simp_all add: backfilled_def extract_from_conversation_kept)

lemma backfilled_id:
  "truthy (id_number (emission_data s)) \<Longrightarrow>
   id_number (emission_data (backfilled fl s)) = id_number (emission_data s)"
  by (simp add: backfilled_def extract_from_conversation_id)

lemma backfilled_consistent:
  "validation_consistent (emission_data s) \<Longrightarrow> validation_consistent (emission_data (backfilled fl s))"
  by (simp add: backfilled_def extract_from_conversation_consistent)

lemma generate_summary_kept:
  "emission_data (snd (generate_summary fl s)) = emission_data s"
  "phone (snd (generate_summary fl s)) = phone s"
  by (simp_all add: generate_summary_def Let_def)

lemma request_data_rest_kept:
  "emission_data (snd (request_data_rest fl missing s)) = emission_data s"
  "phone (snd (request_data_rest fl missing s)) = phone s"
  by (simp_all add: request_data_rest_def Let_def generate_summary_kept)

lemma request_data_kept:
  "id_number (emission_data (snd (request_data fl missing s))) = id_number (emission_data s)"
  "id_type (emission_data (snd (request_data fl missing s))) = id_type (emission_data s)"
  "client_validated (emission_data (snd (request_data fl missing s))) = client_validated (emission_data s)"
  "client_name (emission_data (snd (request_data fl missing s))) = client_name (emission_data s)"
  "phone (snd (request_data fl missing s)) = phone s"
  by (simp_all add: request_data_def Let_def request_data_rest_kept)

lemma request_data_consistent:
  "validation_consistent (emission_data s) \<Longrightarrow>
   validation_consistent (emission_data (snd (request_data fl missing s)))"
  by (simp add: validation_consistent_def request_data_kept)

lemma validate_and_continue_cases:
  assumes "validate_and_continue fl r s = (reply, s', calls)"
  shows "id_number (emission_data s') = id_number (emission_data s)
     \<and> id_type (emission_data s') = id_type (emission_data s)
     \<and> phone s' = phone s
     \<and> ((client_validated (emission_data s') = client_validated (emission_data s)
          \<and> client_name (emission_data s') = client_name (emission_data s))
        \<or> (truthy (id_number (emission_data s)) \<and> fst (check_client r)
            \<and> client_validated (emission_data s')
            \<and> client_name (emission_data s') = Some (snd (check_client r))
            \<and> calls = [Check_client (phone s) (opt_text (id_number (emission_data s)))]))"
  using assms
  by (auto simp: validate_and_continue_def Let_def generate_summary_def
      split: if_splits prod.splits)

lemma validate_and_continue_consistent:
  assumes "validate_and_continue fl r s = (reply, s', calls)"
    and "validation_consistent (emission_data s)"
  shows "validation_consistent (emission_data s')"
  using validate_and_continue_cases [OF assms(1)] assms(2)
  by (auto simp: validation_consistent_def)

lemma validate_and_continue_fresh:
  assumes "validate_and_continue fl r s = (reply, s', calls)"
    and "\<not> client_validated (emission_data s)" and "client_name (emission_data s) = None"
  shows "validation_fresh r s s' calls"
  using validate_and_continue_cases [OF assms(1)] assms(2,3)
  by (auto simp: validation_fresh_def)

lemma price_pending_items_kept:
  "id_number (emission_data (price_pending_items fl message s)) = id_number (emission_data s)"
  "id_type (emission_data (price_pending_items fl message s)) = id_type (emission_data s)"
  "client_validated (emission_data (price_pending_items fl message s)) = client_validated (emission_data s)"
  "client_name (emission_data (price_pending_items fl message s)) = client_name (emission_data s)"
  "phone (price_pending_items fl message s) = phone s"
  by (simp_all add: price_pending_items_def split: option.splits)

lemma update_session_kept:
  "client_validated (emission_data (update_session s x)) = client_validated (emission_data s)"
  "client_name (emission_data (update_session s x)) = client_name (emission_data s)"
  "phone (update_session s x) = phone s"
  by (simp_all add: update_session_def update_emission_kept)

lemma update_session_consistent:
  "validation_consistent (emission_data s) \<Longrightarrow> validation_consistent (emission_data (update_session s x))"
  by (simp add: update_session_def update_emission_consistent)

lemma update_session_id_changes:
  assumes "validation_consistent (emission_data s)"
    and "id_number (emission_data (update_session s x)) \<noteq> id_number (emission_data s)"
  shows "\<not> client_validated (emission_data s) \<and> client_name (emission_data s) = None"
proof -
  from assms(2) have "\<not> truthy (id_type (emission_data s))"
    by (auto simp: update_session_def dest: update_emission_id_changes)
  with assms(1) show ?thesis by (auto simp: validation_consistent_def)
qed

lemma extract_from_conversation_id_changes:
  assumes "validation_consistent (emission_data s)"
    and "id_number (emission_data (extract_from_conversation fl s)) \<noteq> id_number (emission_data s)"
  shows "\<not> client_validated (emission_data s) \<and> client_name (emission_data s) = None"
proof -
  from assms(2) have "\<not> truthy (id_number (emission_data s))"
    using extract_from_conversation_id [of s fl] by auto
  with assms(1) show ?thesis by (auto simp: validation_consistent_def)
qed

lemma reset_emission_kept:
  "emission_data (reset_emission s) = reset (emission_data s)"
  "phone (reset_emission s) = phone s"
  by (simp_all add: reset_emission_def)

lemma extract_document_number_type:
  "extract_document_number message = Some (ty, num) \<Longrightarrow> truthy (Some ty)"
  by (auto simp: extract_document_number_def Let_def u_def split: option.splits if_splits)

text \<open>What the handler of a reconfirmation leaves, whatever the session held.\<close>

lemma handle_client_reconfirmation_document:
  assumes "\<not> is_cancellation (strip (lower message))"
    and "extract_document_number message = Some (ty, num)"
  shows "id_number (emission_data (fst (snd (handle_client_reconfirmation fl r message s)))) = Some num
     \<and> id_type (emission_data (fst (snd (handle_client_reconfirmation fl r message s)))) = Some ty
     \<and> client_validated (emission_data (fst (snd (handle_client_reconfirmation fl r message s))))
         = (num \<noteq> [] \<and> fst (check_client r))
     \<and> client_name (emission_data (fst (snd (handle_client_reconfirmation fl r message s))))
         = (if num \<noteq> [] \<and> fst (check_client r) then Some (snd (check_client r)) else None)
     \<and> (num \<noteq> [] \<longrightarrow> snd (snd (handle_client_reconfirmation fl r message s))
           = [Check_client (phone s) num])"
  using assms
  by (auto simp: handle_client_reconfirmation_def validate_and_continue_def Let_def
      generate_summary_def split: prod.splits)

lemma fresh_from_cleared:
  "\<not> client_validated (emission_data s') \<Longrightarrow> client_name (emission_data s') = None \<Longrightarrow>
   validation_fresh r s s' calls"
  by (simp add: validation_fresh_def)

lemma fresh_phone:
  "validation_fresh r t s' calls \<Longrightarrow> phone t = phone s \<Longrightarrow> validation_fresh r s s' calls"
  by (simp add: validation_fresh_def)

text \<open>
  The three facts about a turn: it keeps the emission data consistent; if the flags were
  cleared before it, or if it changed the ID number, the flags it leaves are fresh; it keeps
  the phone number.
\<close>

lemma handle_client_reconfirmation_effect:
  assumes p: "handle_client_reconfirmation fl r message s = (reply, s', calls)"
  shows "validation_consistent (emission_data s) \<Longrightarrow> validation_consistent (emission_data s')"
    and "(\<not> client_validated (emission_data s) \<and> client_name (emission_data s) = None)
           \<or> id_number (emission_data s') \<noteq> id_number (emission_data s)
         \<Longrightarrow> validation_fresh r s s' calls"
    and "phone s' = phone s"
proof -
  let ?w = "\<lambda>ty num. s \<lparr> emission_data := (emission_data s)
      \<lparr> id_type := Some ty, id_number := Some num, client_validated := False, client_name := None \<rparr>,
      awaiting_client_reconfirmation := False \<rparr>"
  from p consider
      (cancel) "s' = reset_emission s" "calls = []"
    | (document) ty num where "extract_document_number message = Some (ty, num)"
        "validate_and_continue fl r (?w ty num) = (reply, s', calls)"
    | (nothing) "s' = s" "calls = []"
    unfolding handle_client_reconfirmation_def Let_def
    by (auto split: if_splits option.splits)
  note c = this
  show "validation_consistent (emission_data s')" if i: "validation_consistent (emission_data s)"
  proof (cases rule: c)
    case cancel
    then show ?thesis by (simp add: reset_emission_kept reset_consistent)
  next
    case (document ty num)
    have "validation_consistent (emission_data (?w ty num))"
      using i extract_document_number_type [OF document(1)]
      by (simp add: validation_consistent_def)
    with document(2) show ?thesis by (rule validate_and_continue_consistent)
  next
    case nothing
    with i show ?thesis by simp
  qed
  show "validation_fresh r s s' calls"
    if h: "(\<not> client_validated (emission_data s) \<and> client_name (emission_data s) = None)
           \<or> id_number (emission_data s') \<noteq> id_number (emission_data s)"
  proof (cases rule: c)
    case cancel
    then show ?thesis by (simp add: validation_fresh_def reset_emission_kept reset_def)
  next
    case (document ty num)
    have "validation_fresh r (?w ty num) s' calls"
      by (rule validate_and_continue_fresh [OF document(2)]) simp_all
    then show ?thesis by (rule fresh_phone) simp
  next
    case nothing
    with h show ?thesis by (simp add: validation_fresh_def)
  qed
  show "phone s' = phone s"
  proof (cases rule: c)
    case cancel
    then show ?thesis by (simp add: reset_emission_kept)
  next
    case (document ty num)
    from validate_and_continue_cases [OF document(2)] show ?thesis by simp
  next
    case nothing
    then show ?thesis by simp
  qed
qed

lemma process_message_data_effect:
  assumes p: "process_message_data fl r message s0 = (reply, s', calls)"
    and i: "validation_consistent (emission_data s0)"
  shows "validation_consistent (emission_data s')"
    and "(\<not> client_validated (emission_data s0) \<and> client_name (emission_data s0) = None)
           \<or> id_number (emission_data s') \<noteq> id_number (emission_data s0)
         \<Longrightarrow> validation_fresh r s0 s' calls"
    and "phone s' = phone s0"
proof -
  let ?x = "extract_all message s0"
  let ?s1 = "update_session s0 ?x"
  let ?s = "price_pending_items fl message ?s1"
  from p consider
      (pending) "s' = ?s1 \<lparr> pending_items := x_items_sin_precio ?x \<rparr>" "calls = []"
    | (plain) "s' = ?s" "calls = []"
    | (validate) "validate_and_continue fl r ?s = (reply, s', calls)"
    | (summary) "s' = snd (generate_summary fl ?s)" "calls = []"
    | (request) "s' = snd (request_data fl (get_missing_fields (emission_data ?s)) ?s)" "calls = []"
    unfolding process_message_data_def Let_def
    by (auto split: if_splits prod.splits)
  note c = this
  have i1: "validation_consistent (emission_data ?s1)"
    using i by (rule update_session_consistent)
  then have i2: "validation_consistent (emission_data ?s)"
    by (simp add: validation_consistent_def price_pending_items_kept)
  have cleared1: "\<not> client_validated (emission_data ?s1) \<and> client_name (emission_data ?s1) = None"
    if "(\<not> client_validated (emission_data s0) \<and> client_name (emission_data s0) = None)
        \<or> id_number (emission_data ?s1) \<noteq> id_number (emission_data s0)"
    using that update_session_id_changes [OF i, of ?x] by (auto simp: update_session_kept)
  show "validation_consistent (emission_data s')"
  proof (cases rule: c)
    case pending
    with i1 show ?thesis by simp
  next
    case plain
    with i2 show ?thesis by simp
  next
    case validate
    from this i2 show ?thesis by (rule validate_and_continue_consistent)
  next
    case summary
    with i2 show ?thesis by (simp add: generate_summary_kept)
  next
    case request
    with i2 show ?thesis by (simp add: request_data_consistent)
  qed
  show "validation_fresh r s0 s' calls"
    if h: "(\<not> client_validated (emission_data s0) \<and> client_name (emission_data s0) = None)
           \<or> id_number (emission_data s') \<noteq> id_number (emission_data s0)"
  proof (cases rule: c)
    case pending
    with h cleared1 show ?thesis by (auto intro: fresh_from_cleared)
  next
    case plain
    with h cleared1 show ?thesis
      by (auto intro!: fresh_from_cleared simp: price_pending_items_kept)
  next
    case validate
    from validate_and_continue_cases [OF validate]
    have "id_number (emission_data s') = id_number (emission_data ?s1)"
      by (simp add: price_pending_items_kept)
    with h cleared1
    have "\<not> client_validated (emission_data ?s) \<and> client_name (emission_data ?s) = None"
      by (auto simp: price_pending_items_kept)
    then have "validation_fresh r ?s s' calls"
      using validate_and_continue_fresh [OF validate] by simp
    then show ?thesis
      by (rule fresh_phone) (simp add: price_pending_items_kept update_session_kept)
  next
    case summary
    with h cleared1 show ?thesis
      by (auto intro!: fresh_from_cleared simp: price_pending_items_kept generate_summary_kept)
  next
    case request
    with h cleared1 show ?thesis
      by (auto intro!: fresh_from_cleared simp: price_pending_items_kept request_data_kept)
  qed
  show "phone s' = phone s0"
  proof (cases rule: c)
    case pending
    then show ?thesis by (simp add: update_session_kept)
  next
    case plain
    then show ?thesis by (simp add: price_pending_items_kept update_session_kept)
  next
    case validate
    from validate_and_continue_cases [OF validate] show ?thesis
      by (simp add: price_pending_items_kept update_session_kept)
  next
    case summary
    then show ?thesis
      by (simp add: generate_summary_kept price_pending_items_kept update_session_kept)
  next
    case request
    then show ?thesis
      by (simp add: request_data_kept price_pending_items_kept update_session_kept)
  qed
qed

lemma process_message_effect:
  assumes p: "process_message fl r message s0 = (reply, s', calls)"
    and i: "validation_consistent (emission_data s0)"
  shows "validation_consistent (emission_data s')"
    and "(\<not> client_validated (emission_data s0) \<and> client_name (emission_data s0) = None)
           \<or> id_number (emission_data s') \<noteq> id_number (emission_data s0)
         \<Longrightarrow> validation_fresh r s0 s' calls"
proof -
  let ?s = "if strip (lower message) \<in> set [u ''si'', u ''s'' @ [237], u ''ok'', u ''dale'',
                                            u ''confirmo'', u ''claro'']
               \<and> \<not> has_complete_data (emission_data s0)
            then extract_from_conversation fl s0 else s0"
  from p consider
      (cancel) "s' = reset_emission s0" "calls = []"
    | (reconfirm) "handle_client_reconfirmation fl r message s0 = (reply, s', calls)"
    | (validate) "validate_and_continue fl r ?s = (reply, s', calls)"
    | (summary) "s' = snd (generate_summary fl ?s)" "calls = []"
    | (plain) "s' = ?s" "calls = []"
    | (data) "process_message_data fl r message ?s = (reply, s', calls)"
    unfolding process_message_def Let_def
    by (simp split: if_splits prod.splits)
  note c = this
  have i1: "validation_consistent (emission_data ?s)"
    using i by (simp add: extract_from_conversation_consistent)
  have k: "client_validated (emission_data ?s) = client_validated (emission_data s0)"
    "client_name (emission_data ?s) = client_name (emission_data s0)"
    "phone ?s = phone s0"
    by (simp_all add: extract_from_conversation_kept)
  have cleared: "\<not> client_validated (emission_data ?s) \<and> client_name (emission_data ?s) = None"
    if "(\<not> client_validated (emission_data s0) \<and> client_name (emission_data s0) = None)
        \<or> id_number (emission_data ?s) \<noteq> id_number (emission_data s0)"
    using that extract_from_conversation_id_changes [OF i, of fl]
    by (auto simp: extract_from_conversation_kept split: if_splits)
  show "validation_consistent (emission_data s')"
  proof (cases rule: c)
    case cancel
    then show ?thesis by (simp add: reset_emission_kept reset_consistent)
  next
    case reconfirm
    from handle_client_reconfirmation_effect(1) [OF reconfirm i] show ?thesis .
  next
    case validate
    from this i1 show ?thesis by (rule validate_and_continue_consistent)
  next
    case summary
    with i1 show ?thesis by (simp only: generate_summary_kept)
  next
    case plain
    with i1 show ?thesis by (simp only:)
  next
    case data
    from process_message_data_effect(1) [OF data i1] show ?thesis .
  qed
  show "validation_fresh r s0 s' calls"
    if h: "(\<not> client_validated (emission_data s0) \<and> client_name (emission_data s0) = None)
           \<or> id_number (emission_data s') \<noteq> id_number (emission_data s0)"
  proof (cases rule: c)
    case cancel
    then show ?thesis by (simp add: validation_fresh_def reset_emission_kept reset_def)
  next
    case reconfirm
    from handle_client_reconfirmation_effect(2) [OF reconfirm h] show ?thesis .
  next
    case validate
    from validate_and_continue_cases [OF validate]
    have "id_number (emission_data s') = id_number (emission_data ?s)" by (simp only:)
    with h have "(\<not> client_validated (emission_data s0) \<and> client_name (emission_data s0) = None)
        \<or> id_number (emission_data ?s) \<noteq> id_number (emission_data s0)"
      by (simp only:)
    then have "\<not> client_validated (emission_data ?s) \<and> client_name (emission_data ?s) = None"
      by (rule cleared)
    then have "validation_fresh r ?s s' calls"
      using validate_and_continue_fresh [OF validate] by blast
    then show ?thesis using k(3) by (rule fresh_phone)
  next
    case summary
    then have "emission_data s' = emission_data ?s" by (simp only: generate_summary_kept)
    with h cleared show ?thesis by (auto intro!: fresh_from_cleared)
  next
    case plain
    with h cleared show ?thesis by (auto intro!: fresh_from_cleared)
  next
    case data
    have "(\<not> client_validated (emission_data ?s) \<and> client_name (emission_data ?s) = None)
        \<or> id_number (emission_data s') \<noteq> id_number (emission_data ?s)"
      using h cleared by metis
    from process_message_data_effect(2) [OF data i1 this]
    have "validation_fresh r ?s s' calls" .
    then show ?thesis using k(3) by (rule fresh_phone)
  qed
qed

lemma execute_emission_effect:
  assumes p: "execute_emission fl rc re parse now s0 = (reply, s', calls)"
    and i: "validation_consistent (emission_data s0)"
  shows "validation_consistent (emission_data s')"
    and "(\<not> client_validated (emission_data s0) \<and> client_name (emission_data s0) = None)
           \<or> id_number (emission_data s') \<noteq> id_number (emission_data s0)
         \<Longrightarrow> validation_fresh rc s0 s' calls"
proof -
  let ?s = "backfilled fl s0"
  from p consider
      (request) "s' = snd (request_data fl (get_missing_fields (emission_data ?s)) ?s)" "calls = []"
    | (validate) "validate_and_continue fl rc ?s = (reply, s', calls)"
    | (emitted) "emission_data s' = reset (emission_data ?s)"
    | (failed) "s' = ?s"
    unfolding execute_emission_def Let_def
    by (auto simp: reset_emission_kept record_emission_def
        split: if_splits prod.splits emit_result.splits option.splits)
  note c = this
  have i1: "validation_consistent (emission_data ?s)"
    using i by (rule backfilled_consistent)
  have cleared: "\<not> client_validated (emission_data ?s) \<and> client_name (emission_data ?s) = None"
    if "(\<not> client_validated (emission_data s0) \<and> client_name (emission_data s0) = None)
        \<or> id_number (emission_data ?s) \<noteq> id_number (emission_data s0)"
  proof -
    have "\<not> client_validated (emission_data s0) \<and> client_name (emission_data s0) = None"
      using that i backfilled_id [of s0 fl] by (auto simp: validation_consistent_def)
    then show ?thesis by (simp add: backfilled_kept)
  qed
  show "validation_consistent (emission_data s')"
  proof (cases rule: c)
    case request
    with i1 show ?thesis by (simp add: request_data_consistent)
  next
    case validate
    from this i1 show ?thesis by (rule validate_and_continue_consistent)
  next
    case emitted
    then show ?thesis by (simp add: reset_consistent)
  next
    case failed
    with i1 show ?thesis by simp
  qed
  show "validation_fresh rc s0 s' calls"
    if h: "(\<not> client_validated (emission_data s0) \<and> client_name (emission_data s0) = None)
           \<or> id_number (emission_data s') \<noteq> id_number (emission_data s0)"
  proof (cases rule: c)
    case request
    with h cleared show ?thesis
      by (auto intro!: fresh_from_cleared simp: request_data_kept)
  next
    case validate
    from validate_and_continue_cases [OF validate]
    have "id_number (emission_data s') = id_number (emission_data ?s)" by simp
    with h cleared
    have "\<not> client_validated (emission_data ?s) \<and> client_name (emission_data ?s) = None"
      by auto
    then have "validation_fresh rc ?s s' calls"
      using validate_and_continue_fresh [OF validate] by simp
    then show ?thesis by (rule fresh_phone) (simp add: backfilled_kept)
  next
    case emitted
    then show ?thesis by (simp add: validation_fresh_def reset_def)
  next
    case failed
    with h cleared show ?thesis by (auto intro!: fresh_from_cleared)
  qed
qed

lemma reachable_consistent: "reachable s \<Longrightarrow> validation_consistent (emission_data s)"
proof (induction rule: reachable.induct)
  case (new_session p now)
  show ?case
    by (simp add: UserSession_init_def EmissionData_init_def validation_consistent_def)
next
  case (message_processed s fl r message reply s' calls)
  from process_message_effect(1) [OF message_processed(2) message_processed(3)] show ?case .
next
  case (emission_executed s fl rc re parse now reply s' calls)
  from execute_emission_effect(1) [OF emission_executed(2) emission_executed(3)] show ?case .
next
  case (emission_reset s)
  show ?case by (simp add: reset_emission_kept reset_consistent)
next
  case (other_fields s s')
  then show ?case by simp
qed

text \<open>
  C5. In every session a conversation can reach, a validated client has an ID number.
  Every write of the ID number leaves the two flags cleared or freshly set:
  \<^item> the handler of a reconfirmation, given an utterance with a document number, stores the
    number, and the flags it leaves are those of the check of this number alone (cleared
    when the service does not find it), whatever they were before;
  \<^item> after \<open>update_session\<close> and after \<open>_extract_from_conversation\<close>, if the ID number is not
    the one from before, \<open>client_validated\<close> is false and \<open>client_name\<close> is empty (the two
    functions write the number into an empty slot only and do not assign the flags: in a
    session that can be reached, a session with that slot empty has them cleared);
  \<^item> \<open>reset_emission\<close> leaves \<open>client_validated\<close> false and \<open>client_name\<close> empty;
  \<^item> after a whole turn of \<open>process_message\<close> or of \<open>execute_emission\<close> that changed the ID
    number, the flags are cleared, or they were set in this turn by the answer of the
    issuing service for the new number.
\<close>

theorem id_number_change_clears_validation:
  assumes "reachable s"
  shows "(client_validated (emission_data s) \<longrightarrow> truthy (id_number (emission_data s)))
     \<and> (\<not> is_cancellation (strip (lower m)) \<and> extract_document_number m = Some (ty, num) \<longrightarrow>
          id_number (emission_data (fst (snd (handle_client_reconfirmation fl r m s)))) = Some num
          \<and> client_validated (emission_data (fst (snd (handle_client_reconfirmation fl r m s))))
              = (num \<noteq> [] \<and> fst (check_client r))
          \<and> client_name (emission_data (fst (snd (handle_client_reconfirmation fl r m s))))
              = (if num \<noteq> [] \<and> fst (check_client r) then Some (snd (check_client r)) else None))
     \<and> (id_number (emission_data (update_session s x)) \<noteq> id_number (emission_data s) \<longrightarrow>
          \<not> client_validated (emission_data (update_session s x))
          \<and> client_name (emission_data (update_session s x)) = None)
     \<and> (id_number (emission_data (extract_from_conversation fl s)) \<noteq> id_number (emission_data s) \<longrightarrow>
          \<not> client_validated (emission_data (extract_from_conversation fl s))
          \<and> client_name (emission_data (extract_from_conversation fl s)) = None)
     \<and> (\<not> client_validated (emission_data (reset_emission s))
          \<and> client_name (emission_data (reset_emission s)) = None)
     \<and> (id_number (emission_data (fst (snd (process_message fl r m s)))) \<noteq> id_number (emission_data s) \<longrightarrow>
          validation_fresh r s (fst (snd (process_message fl r m s)))
            (snd (snd (process_message fl r m s))))
     \<and> (id_number (emission_data (fst (snd (execute_emission fl rc re parse now s))))
            \<noteq> id_number (emission_data s) \<longrightarrow>
          validation_fresh rc s (fst (snd (execute_emission fl rc re parse now s)))
            (snd (snd (execute_emission fl rc re parse now s))))"
proof -
  from assms have i: "validation_consistent (emission_data s)" by (rule reachable_consistent)
  then have 1: "client_validated (emission_data s) \<longrightarrow> truthy (id_number (emission_data s))"
    by (simp add: validation_consistent_def)
  have 2: "\<not> is_cancellation (strip (lower m)) \<and> extract_document_number m = Some (ty, num) \<longrightarrow>
          id_number (emission_data (fst (snd (handle_client_reconfirmation fl r m s)))) = Some num
          \<and> client_validated (emission_data (fst (snd (handle_client_reconfirmation fl r m s))))
              = (num \<noteq> [] \<and> fst (check_client r))
          \<and> client_name (emission_data (fst (snd (handle_client_reconfirmation fl r m s))))
              = (if num \<noteq> [] \<and> fst (check_client r) then Some (snd (check_client r)) else None)"
    using handle_client_reconfirmation_document [of m ty num fl r s] by blast
  have 3: "id_number (emission_data (update_session s x)) \<noteq> id_number (emission_data s) \<longrightarrow>
          \<not> client_validated (emission_data (update_session s x))
          \<and> client_name (emission_data (update_session s x)) = None"
    using update_session_id_changes [OF i, of x] by (simp add: update_session_kept)
  have 4: "id_number (emission_data (extract_from_conversation fl s)) \<noteq> id_number (emission_data s) \<longrightarrow>
          \<not> client_validated (emission_data (extract_from_conversation fl s))
          \<and> client_name (emission_data (extract_from_conversation fl s)) = None"
    using extract_from_conversation_id_changes [OF i, of fl]
    by (simp add: extract_from_conversation_kept)
  have 5: "\<not> client_validated (emission_data (reset_emission s))
          \<and> client_name (emission_data (reset_emission s)) = None"
    by (simp add: reset_emission_kept reset_def)
  have 6: "id_number (emission_data (fst (snd (process_message fl r m s)))) \<noteq> id_number (emission_data s) \<longrightarrow>
          validation_fresh r s (fst (snd (process_message fl r m s)))
            (snd (snd (process_message fl r m s)))"
  proof
    assume d: "id_number (emission_data (fst (snd (process_message fl r m s)))) \<noteq> id_number (emission_data s)"
    have p: "process_message fl r m s = (fst (process_message fl r m s),
        fst (snd (process_message fl r m s)), snd (snd (process_message fl r m s)))"
      by simp
    from d show "validation_fresh r s (fst (snd (process_message fl r m s)))
            (snd (snd (process_message fl r m s)))"
      by (intro process_message_effect(2) [OF p i] disjI2)
  qed
  have 7: "id_number (emission_data (fst (snd (execute_emission fl rc re parse now s))))
            \<noteq> id_number (emission_data s) \<longrightarrow>
          validation_fresh rc s (fst (snd (execute_emission fl rc re parse now s)))
            (snd (snd (execute_emission fl rc re parse now s)))"
  proof
    assume d: "id_number (emission_data (fst (snd (execute_emission fl rc re parse now s))))
            \<noteq> id_number (emission_data s)"
    have p: "execute_emission fl rc re parse now s = (fst (execute_emission fl rc re parse now s),
        fst (snd (execute_emission fl rc re parse now s)),
        snd (snd (execute_emission fl rc re parse now s)))"
      by simp
    from d show "validation_fresh rc s (fst (snd (execute_emission fl rc re parse now s)))
            (snd (snd (execute_emission fl rc re parse now s)))"
      by (intro execute_emission_effect(2) [OF p i] disjI2)
  qed
  from 1 2 3 4 5 6 7 show ?thesis by blast
qed

subsection \<open>A conversation, evaluated\<close>

lemma check_client_found_juan: "check_client found_juan = (True, u ''JUAN PEREZ'')"
  by (simp add: found_juan_def check_client_def check_client_body_def u_def)

lemma check_client_not_found: "check_client not_found = (False, u ''Cliente no encontrado'')"
  by (simp add: not_found_def check_client_def check_client_body_def u_def)

lemma not_cancellation_12345678: "\<not> is_cancellation (strip (lower (u ''12345678'')))"
  by (simp add: is_cancellation_def cancellation_words_def rx_eval)

lemma not_cancellation_dni: "\<not> is_cancellation (strip (lower (u ''DNI 8765 4321'')))"
  by (simp add: is_cancellation_def cancellation_words_def rx_eval)

lemma extract_document_number_dni:
  "extract_document_number (u ''DNI 8765 4321'') = Some (u ''1'', u ''87654321'')"
  by (simp add: extract_document_number_def re_sub_def rx_digit_gap_def rx_ruc_def rx_dni_def
      Let_def rx_eval)

lemma normalized_12345678:
  "text_normalized (u ''12345678'') (Some (u ''12345678'')) = u '' ''"
  by (simp add: text_normalized_def palabras_numero_def rx_eval)

lemma no_items_blank:
  "candidates1 (u '' '') = []"
  "candidates2 (u '' '') = []"
  "candidates3 (u '' '') = []"
  "candidates_sin_precio (u '' '') = []"
  by (simp_all add: candidates1_def candidates2_def candidates3_def candidates_sin_precio_def
      pattern1_def pattern2_def pattern3_def pattern_sin_precio_def description_lazy_def
      money_prefix_def amount_def rx_eval)

lemma extract_items_12345678:
  "extract_items (u ''12345678'') (Some (u ''12345678'')) = ([], [])"
  unfolding extract_items_def Let_def normalized_12345678 no_items_blank by simp

lemma extract_all_12345678:
  "extract_all (u ''12345678'') s =
     \<lparr> x_document_type = Some (u ''03''), x_id_type = Some (u ''1''),
       x_id_number = Some (u ''12345678''), x_currency = Some (u ''PEN''), x_items = [],
       x_items_sin_precio = [] \<rparr>"
proof -
  have k: "re_search rx_factura (lower (u ''12345678'')) = None"
    "re_search rx_boleta (lower (u ''12345678'')) = None"
    using no_keyword_12345678 by (simp_all add: has_document_keyword_def)
  have d: "\<not> has_dollar (lower (u ''12345678''))"
    by (simp add: has_dollar_def lower_def lower_cp_def u_def)
  show ?thesis
    by (simp add: extract_all_def Let_def extract_id_12345678 extract_items_12345678 k d)
qed

lemma process_message_data_12345678:
  "snd (process_message_data plain_float_text found_juan (u ''12345678'') caller) =
     (caller \<lparr> emission_data := \<lparr> document_type = Some (u ''03''), currency = Some (u ''PEN''),
                  id_type = Some (u ''1''), id_number = Some (u ''12345678''), items = [],
                  client_validated = True, client_name = Some (u ''JUAN PEREZ'') \<rparr> \<rparr>,
      [Check_client (u ''51999888777'') (u ''12345678'')])"
  unfolding process_message_data_def Let_def extract_all_12345678
  by (simp add: update_session_def update_emission_def price_pending_items_def caller_def
      UserSession_init_def EmissionData_init_def get_missing_fields_def is_initial_request_def
      validate_and_continue_def check_client_found_juan Let_def rx_eval)

lemma process_message_12345678:
  "process_message plain_float_text found_juan (u ''12345678'') caller =
     process_message_data plain_float_text found_juan (u ''12345678'') caller"
proof -
  have b: "\<not> awaiting_client_reconfirmation caller"
    by (simp add: caller_def UserSession_init_def)
  have c: "strip (lower (u ''12345678'')) \<notin> set [u ''si'', u ''s'' @ [237], u ''ok'', u ''dale'',
      u ''confirmo'', u ''claro'']"
    "strip (lower (u ''12345678'')) \<notin> set [u ''ruc'', u ''con ruc'', u ''es ruc'']"
    "strip (lower (u ''12345678'')) \<notin> set [u ''dni'', u ''con dni'', u ''es dni'']"
    by (simp_all add: rx_eval)
  show ?thesis
    unfolding process_message_def Let_def using not_cancellation_12345678 b c by simp
qed

lemma emission_data_juan_checked:
  "emission_data juan_checked =
     \<lparr> document_type = Some (u ''03''), currency = Some (u ''PEN''), id_type = Some (u ''1''),
       id_number = Some (u ''12345678''), items = [], client_validated = True,
       client_name = Some (u ''JUAN PEREZ'') \<rparr>"
  "snd (snd (process_message plain_float_text found_juan (u ''12345678'') caller))
     = [Check_client (u ''51999888777'') (u ''12345678'')]"
  unfolding juan_checked_def process_message_12345678
  by (simp_all add: process_message_data_12345678)

lemma reachable_caller: "reachable caller"
  by (rule other_fields [OF new_session [of "u ''51999888777''" 0]]) (simp add: caller_def)

lemma reachable_juan_checked: "reachable juan_checked"
proof -
  have "process_message plain_float_text found_juan (u ''12345678'') caller =
      (fst (process_message plain_float_text found_juan (u ''12345678'') caller), juan_checked,
       snd (snd (process_message plain_float_text found_juan (u ''12345678'') caller)))"
    by (simp add: juan_checked_def)
  with reachable_caller show ?thesis by (rule message_processed)
qed

theorem id_number_change_clears_validation_witness:
  "reachable caller
   \<and> id_number (emission_data caller) = None
   \<and> reachable juan_checked
   \<and> id_number (emission_data juan_checked) = Some (u ''12345678'')
   \<and> client_validated (emission_data juan_checked)
   \<and> client_name (emission_data juan_checked) = Some (u ''JUAN PEREZ'')
   \<and> snd (snd (process_message plain_float_text found_juan (u ''12345678'') caller))
       = [Check_client (u ''51999888777'') (u ''12345678'')]
   \<and> truthy (id_number (emission_data juan_checked))
   \<and> \<not> is_cancellation (strip (lower (u ''DNI 8765 4321'')))
   \<and> extract_document_number (u ''DNI 8765 4321'') = Some (u ''1'', u ''87654321'')
   \<and> id_number (emission_data (fst (snd (handle_client_reconfirmation plain_float_text not_found
         (u ''DNI 8765 4321'') juan_checked)))) = Some (u ''87654321'')
   \<and> \<not> client_validated (emission_data (fst (snd (handle_client_reconfirmation plain_float_text
         not_found (u ''DNI 8765 4321'') juan_checked))))
   \<and> client_name (emission_data (fst (snd (handle_client_reconfirmation plain_float_text not_found
         (u ''DNI 8765 4321'') juan_checked)))) = None"
proof -
  have c: "id_number (emission_data caller) = None"
    by (simp add: caller_def UserSession_init_def EmissionData_init_def)
  have j: "id_number (emission_data juan_checked) = Some (u ''12345678'')"
    "client_validated (emission_data juan_checked)"
    "client_name (emission_data juan_checked) = Some (u ''JUAN PEREZ'')"
    by (simp_all add: emission_data_juan_checked)
  have n: "u ''87654321'' \<noteq> []" by (simp add: u_def)
  have f: "\<not> fst (check_client not_found)" by (simp add: check_client_not_found)
  from id_number_change_clears_validation [OF reachable_juan_checked,
      where m = "u ''DNI 8765 4321''" and ty = "u ''1''" and num = "u ''87654321''"
        and fl = plain_float_text and r = not_found]
  have t: "truthy (id_number (emission_data juan_checked))"
    and h: "id_number (emission_data (fst (snd (handle_client_reconfirmation plain_float_text not_found
         (u ''DNI 8765 4321'') juan_checked)))) = Some (u ''87654321'')
     \<and> \<not> client_validated (emission_data (fst (snd (handle_client_reconfirmation plain_float_text
         not_found (u ''DNI 8765 4321'') juan_checked))))
     \<and> client_name (emission_data (fst (snd (handle_client_reconfirmation plain_float_text not_found
         (u ''DNI 8765 4321'') juan_checked)))) = None"
    using j(2) not_cancellation_dni extract_document_number_dni n f by simp_all
  from reachable_caller c reachable_juan_checked j emission_data_juan_checked(2) t
    not_cancellation_dni extract_document_number_dni h
  show ?thesis by simp
qed

text \<open>
  C9. With \<open>force\<close> false and a cached context that was loaded less than the refresh
  window (60 minutes) ago, \<open>load_user_context\<close> returns success at once, makes none of
  the three calls and leaves the session, hence the cached context, as it is; a second
  call within the window therefore does nothing.
\<close>

theorem load_user_context_cached:
  assumes "loaded_at (user_context s) = Some t" and "now - t < 60 * 60 * 1000000"
  shows "load_user_context rp rc rh now s False = (True, s, [])"
  using assms by (simp add: load_user_context_def is_loaded_def is_stale_def)

theorem load_user_context_cached_witness:
  "load_user_context (Raised []) (Raised []) (Raised []) 1000
     ((UserSession_init [] 0) \<lparr> user_context := UserContext_init \<lparr> loaded_at := Some 0 \<rparr> \<rparr>) False
   = (True, (UserSession_init [] 0) \<lparr> user_context := UserContext_init \<lparr> loaded_at := Some 0 \<rparr> \<rparr>, [])"
  by (rule load_user_context_cached [where t = 0]) simp_all

end
